theory Spec2Isabelle
  imports Main
begin

section \<open>JavaScript strings\<close>

text \<open>
  A string is the list of its Unicode code points. The stage screens count positions
  (\<open>slice\<close>, \<open>length\<close>, the \<open>{17}\<close> of a regular expression) only in strings that
  hold ASCII letters and digits, or compare a length with zero, so code points and UTF-16 code
  units agree wherever a position is counted.
\<close>

type_synonym jsstring = "nat list"

definition js :: "string \<Rightarrow> jsstring" where
  "js s = map of_char s"

definition isUpperAZ :: "nat \<Rightarrow> bool" where
  "isUpperAZ c = (65 \<le> c \<and> c \<le> 90)"

definition isLowerAZ :: "nat \<Rightarrow> bool" where
  "isLowerAZ c = (97 \<le> c \<and> c \<le> 122)"

definition isDigit :: "nat \<Rightarrow> bool" where
  "isDigit c = (48 \<le> c \<and> c \<le> 57)"

text \<open>
  \<open>String.prototype.toUpperCase\<close> maps every code point on its own (the default case
  conversion of Unicode has no context rule for upper case). On ASCII it is written out; the
  table for the code points from 128 on belongs to the JavaScript runtime and is the
  parameter \<open>U\<close> (for instance \<open>U 223 = [83, 83]\<close>: the sharp s becomes SS).
\<close>

definition upperCodePoint :: "(nat \<Rightarrow> nat list) \<Rightarrow> nat \<Rightarrow> nat list" where
  "upperCodePoint U c =
     (if c < 128 then (if isLowerAZ c then [c - 32] else [c]) else U c)"

definition toUpperCase :: "(nat \<Rightarrow> nat list) \<Rightarrow> jsstring \<Rightarrow> jsstring" where
  "toUpperCase U s = concat (map (upperCodePoint U) s)"

text \<open>The character class \<open>[A-Z0-9]\<close>.\<close>

definition vinChar :: "nat \<Rightarrow> bool" where
  "vinChar c = (isUpperAZ c \<or> isDigit c)"

text \<open>\<open>s.replace(/[^A-Z0-9]/g, '')\<close>.\<close>

definition stripNonVin :: "jsstring \<Rightarrow> jsstring" where
  "stripNonVin s = filter vinChar s"

text \<open>\<open>/^[A-Z0-9]{17}$/.test(s)\<close> and \<open>/^[A-Z0-9]+$/.test(s)\<close> (no \<open>m\<close> flag: the anchors are
  the ends of the string).\<close>

definition matchesVin17 :: "jsstring \<Rightarrow> bool" where
  "matchesVin17 s = (length s = 17 \<and> list_all vinChar s)"

definition matchesVinPlus :: "jsstring \<Rightarrow> bool" where
  "matchesVinPlus s = (s \<noteq> [] \<and> list_all vinChar s)"

text \<open>\<open>/^[A-Z0-9]*$/.test(s)\<close>, the shape the specification gives a normalised VIN.\<close>

definition matchesVinStar :: "jsstring \<Rightarrow> bool" where
  "matchesVinStar s = list_all vinChar s"

section \<open>VIN normalisation and validity\<close>

text \<open>Chasis, \<open>onBastidorInput\<close>:
  \<open>(value || '').toUpperCase().replace(/[^A-Z0-9]/g, '').slice(0, 17)\<close>.\<close>

definition chasis_clean :: "(nat \<Rightarrow> nat list) \<Rightarrow> jsstring \<Rightarrow> jsstring" where
  "chasis_clean U v = take 17 (stripNonVin (toUpperCase U v))"

text \<open>Montaje, \<open>onVinInput\<close>: \<open>(value || '').toUpperCase().replace(/[^A-Z0-9]/g, '')\<close>,
  with no \<open>slice\<close>.\<close>

definition montaje_clean :: "(nat \<Rightarrow> nat list) \<Rightarrow> jsstring \<Rightarrow> jsstring" where
  "montaje_clean U v = stripNonVin (toUpperCase U v)"

text \<open>Chasis, \<open>isValidVin(v?: string | null)\<close>; \<open>None\<close> is \<open>null\<close> or \<open>undefined\<close>, and
  \<open>!v\<close> also holds of the empty string.\<close>

definition chasis_isValidVin :: "(nat \<Rightarrow> nat list) \<Rightarrow> jsstring option \<Rightarrow> bool" where
  "chasis_isValidVin U v =
     (case v of None \<Rightarrow> False
      | Some s \<Rightarrow> if s = [] then False else matchesVin17 (toUpperCase U s))"

text \<open>Montaje, \<open>isValidVin\<close>: alphanumeric only, the length is not forced.\<close>

definition montaje_isValidVin :: "(nat \<Rightarrow> nat list) \<Rightarrow> jsstring option \<Rightarrow> bool" where
  "montaje_isValidVin U v =
     (case v of None \<Rightarrow> False
      | Some s \<Rightarrow> if s = [] then False else matchesVinPlus (toUpperCase U s))"

section \<open>Runtime functions and string helpers\<close>

text \<open>
  What the screens take from the JavaScript runtime and its Unicode tables is a parameter of
  the model: the upper-case table beyond ASCII, \<open>toLowerCase\<close>, \<open>normalize('NFD')\<close> and
  \<open>localeCompare(_, 'es', {sensitivity: 'base'})\<close>. No result below depends on their values.
\<close>

record runtime =
  upperTable :: "nat \<Rightarrow> nat list"
  toLowerCase :: "jsstring \<Rightarrow> jsstring"
  normalizeNFD :: "jsstring \<Rightarrow> jsstring"
  localeCompare :: "jsstring \<Rightarrow> jsstring \<Rightarrow> int"

text \<open>White space as \<open>trim()\<close> and \<open>\s\<close> read it: the WhiteSpace and LineTerminator code
  points of ECMAScript.\<close>

definition jsWhiteSpace :: "nat \<Rightarrow> bool" where
  "jsWhiteSpace c =
     (c \<in> {9, 10, 11, 12, 13, 32, 160, 5760, 8232, 8233, 8239, 8287, 12288, 65279}
      \<or> (8192 \<le> c \<and> c \<le> 8202))"

definition trim :: "jsstring \<Rightarrow> jsstring" where
  "trim s = rev (dropWhile jsWhiteSpace (rev (dropWhile jsWhiteSpace s)))"

text \<open>\<open>x || ''\<close> for an optional string.\<close>

definition orEmpty :: "jsstring option \<Rightarrow> jsstring" where
  "orEmpty v = (case v of None \<Rightarrow> [] | Some s \<Rightarrow> s)"

text \<open>\<open>s || null\<close> for a string: the empty string is falsy.\<close>

definition orNull :: "jsstring \<Rightarrow> jsstring option" where
  "orNull s = (if s = [] then None else Some s)"

text \<open>Truthiness of an optional number (\<open>if (this._pendingId)\<close>, \<open>!newId\<close>): \<open>null\<close>,
  \<open>undefined\<close> and \<open>0\<close> are falsy. Identifiers are database keys, modelled as naturals.\<close>

definition truthyId :: "nat option \<Rightarrow> bool" where
  "truthyId v = (case v of None \<Rightarrow> False | Some n \<Rightarrow> n \<noteq> 0)"

text \<open>\<open>String(n)\<close> of a natural number: its decimal digits.\<close>

fun stringOfNat :: "nat \<Rightarrow> jsstring" where
  "stringOfNat n = (if n < 10 then [48 + n] else stringOfNat (n div 10) @ [48 + n mod 10])"

declare stringOfNat.simps [simp del]

section \<open>Column keys\<close>

text \<open>The class \<open>[a-z0-9]\<close> of \<open>labelToCol\<close>.\<close>

definition colChar :: "nat \<Rightarrow> bool" where
  "colChar c = (isLowerAZ c \<or> isDigit c)"

text \<open>\<open>s.replace(/[^a-z0-9]+/g, '_')\<close>: every maximal run outside the class becomes one
  underscore. The flag says that the previous character was already part of a run.\<close>

fun collapseRuns :: "bool \<Rightarrow> jsstring \<Rightarrow> jsstring" where
  "collapseRuns r [] = []"
| "collapseRuns r (c # cs) =
     (if colChar c then c # collapseRuns False cs
      else if r then collapseRuns True cs
      else 95 # collapseRuns True cs)"

text \<open>\<open>s.replace(/^_+|_+$/g, '')\<close>.\<close>

definition stripUnderscores :: "jsstring \<Rightarrow> jsstring" where
  "stripUnderscores s = rev (dropWhile (\<lambda>c. c = 95) (rev (dropWhile (\<lambda>c. c = 95) s)))"

text \<open>The combining marks \<open>U+0300 .. U+036F\<close>.\<close>

definition combiningMark :: "nat \<Rightarrow> bool" where
  "combiningMark c = (768 \<le> c \<and> c \<le> 879)"

text \<open>\<open>labelToCol\<close>, the same text in the four screens.\<close>

definition labelToCol :: "runtime \<Rightarrow> jsstring \<Rightarrow> jsstring" where
  "labelToCol rt lbl =
     (if lbl = [] then []
      else
        let s = filter (\<lambda>c. \<not> combiningMark c) (normalizeNFD rt lbl);
            s' = collapseRuns False (toLowerCase rt s)
        in stripUnderscores s')"

section \<open>Checklist data\<close>

record Task =
  label :: jsstring
  done_flag :: bool

record Section =
  name :: jsstring
  tasks :: "Task list"

text \<open>\<open>Record<string, boolean>\<close>: the checks of a pending record, by column key.\<close>

type_synonym checks = "jsstring \<Rightarrow> bool option"

text \<open>
  \<open>!!ck[col]\<close>. An own key gives its value. A missing key gives \<open>undefined\<close>, hence false,
  but for the one column key that names a property every object inherits from
  \<open>Object.prototype\<close>: \<open>ck['constructor']\<close> is a function, hence truthy (the other inherited
  names hold an upper-case letter or begin with an underscore, which no column key does).
\<close>

definition checkFlag :: "checks \<Rightarrow> jsstring \<Rightarrow> bool" where
  "checkFlag ck col =
     (case ck col of Some b \<Rightarrow> b | None \<Rightarrow> col = js ''constructor'')"

text \<open>The loop of \<open>applyPendingIfReady\<close>, \<open>applyPendingChecks\<close> and \<open>flushBufferedIfAny\<close>:
  \<open>t.done = !!ck[labelToCol(t.label)]\<close> for every task.\<close>

definition markTasks :: "runtime \<Rightarrow> checks \<Rightarrow> Task list \<Rightarrow> Task list" where
  "markTasks rt ck ts = map (\<lambda>t. t\<lparr>done_flag := checkFlag ck (labelToCol rt (label t))\<rparr>) ts"

definition markSections :: "runtime \<Rightarrow> checks \<Rightarrow> Section list \<Rightarrow> Section list" where
  "markSections rt ck secs = map (\<lambda>sec. sec\<lparr>tasks := markTasks rt ck (tasks sec)\<rparr>) secs"

text \<open>\<open>tasks.map(t => ({ ...t, done: false }))\<close> and its \<open>forEach\<close> variants.\<close>

definition uncheckTasks :: "Task list \<Rightarrow> Task list" where
  "uncheckTasks ts = map (\<lambda>t. t\<lparr>done_flag := False\<rparr>) ts"

definition uncheckSections :: "Section list \<Rightarrow> Section list" where
  "uncheckSections secs = map (\<lambda>sec. sec\<lparr>tasks := uncheckTasks (tasks sec)\<rparr>) secs"

definition allTasks :: "Section list \<Rightarrow> Task list" where
  "allTasks secs = concat (map tasks secs)"

datatype js_error = TypeError

datatype proceso = Pintura | Chasis | Premontaje | Montaje

section \<open>Catalog rows and their grouping into sections\<close>

record TareaCatalogo =
  cat_id :: nat
  cat_proceso :: proceso
  seccion :: "jsstring option"
  cat_label :: jsstring
  activa :: bool

text \<open>\<open>r.seccion?.trim() || dflt\<close>.\<close>

definition sectionKey :: "jsstring \<Rightarrow> TareaCatalogo \<Rightarrow> jsstring" where
  "sectionKey dflt r =
     (let s = (case seccion r of None \<Rightarrow> [] | Some x \<Rightarrow> trim x)
      in if s = [] then dflt else s)"

text \<open>The \<open>Map<string, Task[]>\<close> of the load, in insertion order:
  \<open>if (!mapSec.has(sec)) mapSec.set(sec, []); mapSec.get(sec).push(task)\<close>.\<close>

fun addToGroup :: "jsstring \<Rightarrow> Task \<Rightarrow> (jsstring \<times> Task list) list \<Rightarrow> (jsstring \<times> Task list) list" where
  "addToGroup k t [] = [(k, [t])]"
| "addToGroup k t ((k', ts) # g) =
     (if k = k' then (k', ts @ [t]) # g else (k', ts) # addToGroup k t g)"

definition groupRows :: "jsstring \<Rightarrow> TareaCatalogo list \<Rightarrow> (jsstring \<times> Task list) list" where
  "groupRows dflt rows =
     foldl (\<lambda>g r. addToGroup (sectionKey dflt r) \<lparr>label = cat_label r, done_flag = False\<rparr> g) [] rows"

text \<open>
  A JavaScript number that holds a natural number: the nearest double, ties to the even
  significand of 53 bits; \<open>None\<close> is \<open>Infinity\<close>, from \<open>2^1024 - 2^970\<close> on. \<open>bitLength\<close>
  counts the binary digits.
\<close>

fun bitLength :: "nat \<Rightarrow> nat" where
  "bitLength n = (if n = 0 then 0 else Suc (bitLength (n div 2)))"

declare bitLength.simps [simp del]

definition toDouble :: "nat \<Rightarrow> nat option" where
  "toDouble n =
     (let e = bitLength n - 53;
          q = n div 2 ^ e;
          r = n mod 2 ^ e;
          q' = (if 2 * r > 2 ^ e \<or> (2 * r = 2 ^ e \<and> odd q) then q + 1 else q);
          v = q' * 2 ^ e
      in if bitLength v > 1024 then None else Some v)"

text \<open>\<open>parseInt(digits, 10)\<close> on a string of decimal digits: the value of the digits as a
  number.\<close>

definition parseInt10 :: "jsstring \<Rightarrow> nat option" where
  "parseInt10 ds = toDouble (foldl (\<lambda>acc d. 10 * acc + (d - 48)) 0 ds)"

definition lowerAscii :: "nat \<Rightarrow> nat" where
  "lowerAscii c = (if isUpperAZ c then c + 32 else c)"

text \<open>\<open>/fase\s*(\d+)/i\<close> tried at the head of a string: the letters in either case, any white
  space, then at least one digit; \<open>None\<close> when it does not match there, else the number that
  \<open>parseInt\<close> reads from the digits.\<close>

definition matchFaseAt :: "jsstring \<Rightarrow> nat option option" where
  "matchFaseAt s =
     (case s of
        f # a # s' # e # rest \<Rightarrow>
          if lowerAscii f = 102 \<and> lowerAscii a = 97 \<and> lowerAscii s' = 115 \<and> lowerAscii e = 101
          then (let ds = takeWhile isDigit (dropWhile jsWhiteSpace rest)
                in if ds = [] then None else Some (parseInt10 ds))
          else None
      | _ \<Rightarrow> None)"

text \<open>\<open>faseNum\<close>: the leftmost match; \<open>None\<close> is \<open>Number.POSITIVE_INFINITY\<close>.\<close>

fun faseNum :: "jsstring \<Rightarrow> nat option" where
  "faseNum [] = None"
| "faseNum (c # cs) =
     (case matchFaseAt (c # cs) of Some v \<Rightarrow> v | None \<Rightarrow> faseNum cs)"

text \<open>The comparator of the sort: by phase number, then by \<open>localeCompare\<close>. The sort reads
  the sign of \<open>fa - fb\<close> only, which the difference of the two naturals has too.\<close>

definition compareSections :: "runtime \<Rightarrow> jsstring \<Rightarrow> jsstring \<Rightarrow> int" where
  "compareSections rt a b =
     (let fa = faseNum a; fb = faseNum b
      in if fa \<noteq> fb
         then (case (fa, fb) of
                 (Some x, Some y) \<Rightarrow> int x - int y
               | (Some x, None) \<Rightarrow> - 1
               | (None, _) \<Rightarrow> 1)
         else localeCompare rt a b)"

text \<open>\<open>Array.prototype.sort\<close> is stable: insertion from the right keeps equal entries in their
  order.\<close>

fun insertSorted :: "('a \<Rightarrow> 'a \<Rightarrow> int) \<Rightarrow> 'a \<Rightarrow> 'a list \<Rightarrow> 'a list" where
  "insertSorted cmp x [] = [x]"
| "insertSorted cmp x (y # ys) =
     (if cmp x y \<le> 0 then x # y # ys else y # insertSorted cmp x ys)"

definition sortStable :: "('a \<Rightarrow> 'a \<Rightarrow> int) \<Rightarrow> 'a list \<Rightarrow> 'a list" where
  "sortStable cmp xs = foldr (insertSorted cmp) xs []"

text \<open>The sections of a catalog as Pintura, Premontaje and Montaje build them: active rows,
  grouped, sorted, mapped to \<open>{ name, tasks }\<close>.\<close>

definition loadSections :: "runtime \<Rightarrow> jsstring \<Rightarrow> TareaCatalogo list \<Rightarrow> Section list" where
  "loadSections rt dflt rows =
     map (\<lambda>(n, ts). \<lparr>name = n, tasks = ts\<rparr>)
       (sortStable (\<lambda>a b. compareSections rt (fst a) (fst b))
          (groupRows dflt (filter activa rows)))"

section \<open>The persistence gateway\<close>

text \<open>
  Values of a JSON body, requests and replies of \<open>TareasService\<close>. \<open>None\<close> in an optional
  field is \<open>null\<close> or an absent key: the screens never tell them apart (\<open>||\<close>, \<open>??\<close>, \<open>!\<close>).
\<close>

datatype jsval = JNull | JStr jsstring | JNum nat | JBool bool

type_synonym patch = "jsstring \<Rightarrow> jsval option"

record IniciarTareaDto =
  usuario_id :: nat
  area :: proceso
  dto_bastidor :: "jsstring option"
  dto_color :: "jsstring option"
  dto_RAL :: "jsstring option"
  dto_checks :: checks

record IniciarTareaResp =
  resp_id :: "nat option"
  resp_idArea :: "nat option"
  resp_id_area :: "nat option"
  resp_status :: "jsstring option"

record PendingItem =
  area_key :: proceso
  item_id :: nat
  item_bastidor :: "jsstring option"
  item_color :: "jsstring option"
  item_RAL :: "jsstring option"

record SnapshotResp =
  snap_exists :: bool
  snap_id :: "nat option"
  snap_color :: "jsstring option"
  snap_RAL :: "jsstring option"
  snap_checks :: "checks option"

datatype vin_status = StatusFree | StatusPending | StatusFinalized

record VinEstadoChasisResp =
  status :: vin_status
  estado_id :: "nat option"
  estado_checks :: "checks option"

text \<open>The requests a screen sends, in the order of sending; every state keeps them as a
  trace.\<close>

datatype request =
    GetCatalogo proceso
  | IniciarTarea IniciarTareaDto
  | ActualizarTarea proceso nat patch
  | FinalizarTarea proceso "nat option"
  | GetVinEstadoChasis jsstring
  | IsVinDisponibleEnMontaje jsstring
  | GetColorPinturaPorVin jsstring
  | GetPendiente proceso jsstring nat
  | GetPendientesUsuario nat
  | GetSnapshot proceso nat

text \<open>
  A reply is the \<open>next\<close> or the \<open>error\<close> callback of a subscription. For the chain of
  \<open>continueAndClear\<close> (update or start, then finalize) the gateway is a parameter that
  answers each request, and the callbacks run where the source nests them, with no other
  event of the screen in between.
\<close>

datatype 'a reply = Failed | Replied 'a

record gateway =
  gw_iniciarTarea :: "IniciarTareaDto \<Rightarrow> IniciarTareaResp reply"
  gw_actualizarTarea :: "proceso \<Rightarrow> nat \<Rightarrow> patch \<Rightarrow> unit reply"
  gw_finalizarTarea :: "proceso \<Rightarrow> nat option \<Rightarrow> unit reply"

text \<open>What the screens read from \<open>sessionStorage\<close> and the clock: \<open>getCurrentUserId()\<close>,
  \<open>getCurrentUserEmail()\<close> (lower-cased there) and \<open>getToday()\<close>.\<close>

record session =
  userId :: nat
  userEmail :: jsstring
  today :: jsstring

definition getCountKey :: "jsstring \<Rightarrow> session \<Rightarrow> jsstring" where
  "getCountKey moduleKey ses =
     js ''count_'' @ userEmail ses @ js ''_'' @ today ses @ js ''_'' @ moduleKey"

text \<open>\<open>buildChecksPatch\<close>: \<open>patch[labelToCol(t.label)] = t.done ? 1 : 0\<close> over all tasks; a
  later task overwrites an equal key.\<close>

definition buildChecksPatch :: "runtime \<Rightarrow> Section list \<Rightarrow> patch" where
  "buildChecksPatch rt secs =
     fold (\<lambda>t m. m(labelToCol rt (label t) \<mapsto> JNum (if done_flag t then 1 else 0)))
       (allTasks secs) Map.empty"

text \<open>
  \<open>buildChecksPayload\<close> of Chasis and Montaje (\<open>buildChecksLabels\<close> in Premontaje):
  \<open>p[t.label] = !!t.done\<close> on the object \<open>{}\<close>. For the label \<open>__proto__\<close> the assignment
  runs the setter of \<open>Object.prototype\<close>, which ignores a boolean: the object gets no such
  key.
\<close>

definition buildChecksPayload :: "Task list \<Rightarrow> checks" where
  "buildChecksPayload ts =
     fold (\<lambda>t m. if label t = js ''__proto__'' then m else m(label t \<mapsto> done_flag t)) ts Map.empty"

text \<open>The \<open>Object.fromEntries(... [t.label, !!t.done])\<close> of Pintura defines every key, also
  \<open>__proto__\<close>.\<close>

definition checksFromEntries :: "Task list \<Rightarrow> checks" where
  "checksFromEntries ts = fold (\<lambda>t m. m(label t \<mapsto> done_flag t)) ts Map.empty"

definition nullable :: "jsstring option \<Rightarrow> jsval" where
  "nullable v = (case v of None \<Rightarrow> JNull | Some s \<Rightarrow> JStr s)"

section \<open>Pintura\<close>

record pintura_snapshot =
  ps_color :: "jsstring option"
  ps_RAL :: "jsstring option"
  ps_checks :: "checks option"
  ps_id :: "nat option"

record pintura =
  pin_dailyCount :: nat
  pin_loading :: bool
  pin_errorMsg :: "jsstring option"
  pin_colorDescripcion :: jsstring
  pin_colorRAL :: jsstring
  pin_sections :: "Section list"
  pin_pendingId :: "nat option"
  pin_pendingSnapshot :: "pintura_snapshot option"
  pin_showModal :: bool
  pin_localStorage :: "jsstring \<Rightarrow> jsstring option"
  pin_console :: "jsstring list"
  pin_sent :: "request list"

definition pin_send :: "request \<Rightarrow> pintura \<Rightarrow> pintura" where
  "pin_send r st = st\<lparr>pin_sent := pin_sent st @ [r]\<rparr>"

definition pin_error :: "jsstring \<Rightarrow> pintura \<Rightarrow> pintura" where
  "pin_error msg st = st\<lparr>pin_console := pin_console st @ [msg]\<rparr>"

text \<open>\<open>applyPendingIfReady\<close> (pintura.ts, lines 104 to 129).\<close>

definition pintura_applyPendingIfReady :: "runtime \<Rightarrow> pintura \<Rightarrow> pintura" where
  "pintura_applyPendingIfReady rt st =
     (case pin_pendingSnapshot st of
        None \<Rightarrow> st
      | Some snap \<Rightarrow>
          if pin_sections st = [] then st
          else
            let color = trim (orEmpty (ps_color snap));
                RAL = trim (orEmpty (ps_RAL snap));
                st1 = (if color \<noteq> [] then st\<lparr>pin_colorDescripcion := color\<rparr> else st);
                st2 = (if RAL \<noteq> [] then st1\<lparr>pin_colorRAL := RAL\<rparr> else st1);
                ck = (case ps_checks snap of None \<Rightarrow> Map.empty | Some c \<Rightarrow> c)
            in st2\<lparr>pin_sections := markSections rt ck (pin_sections st2),
                   pin_pendingId := ps_id snap,
                   pin_pendingSnapshot := None\<rparr>)"

text \<open>\<open>cargarTareasDesdeBD\<close>: the request, and its two callbacks.\<close>

definition pintura_cargarTareasDesdeBD :: "pintura \<Rightarrow> pintura" where
  "pintura_cargarTareasDesdeBD st =
     pin_send (GetCatalogo Pintura) (st\<lparr>pin_loading := True, pin_errorMsg := None\<rparr>)"

definition pintura_catalogo_next :: "runtime \<Rightarrow> TareaCatalogo list \<Rightarrow> pintura \<Rightarrow> pintura" where
  "pintura_catalogo_next rt rows st =
     pintura_applyPendingIfReady rt
       (st\<lparr>pin_sections := loadSections rt (js ''Partes'') rows, pin_loading := False\<rparr>)"

text \<open>\<open>console.error(e)\<close> with the bare error object is logged as the empty message.\<close>

definition pintura_catalogo_error :: "pintura \<Rightarrow> pintura" where
  "pintura_catalogo_error st =
     (pin_error [] st)\<lparr>pin_errorMsg := Some (js ''No se pudieron cargar las tareas de Pintura.''),
                       pin_loading := False\<rparr>"

text \<open>\<open>autoResumeFromUserPending\<close>: the request for the user's pending records, the request
  for the snapshot of the first one of Pintura, and the callback that stores the snapshot and
  tries to apply it.\<close>

definition pintura_autoResumeFromUserPending :: "session \<Rightarrow> pintura \<Rightarrow> pintura" where
  "pintura_autoResumeFromUserPending ses st =
     (if userId ses = 0 then st else pin_send (GetPendientesUsuario (userId ses)) st)"

definition pintura_pendientes_next :: "PendingItem list \<Rightarrow> pintura \<Rightarrow> pintura" where
  "pintura_pendientes_next items st =
     (case find (\<lambda>p. area_key p = Pintura) items of
        None \<Rightarrow> st
      | Some mine \<Rightarrow> pin_send (GetSnapshot Pintura (item_id mine)) st)"

text \<open>\<open>a ?? b\<close> on optional values.\<close>

definition nullish :: "'a option \<Rightarrow> 'a option \<Rightarrow> 'a option" where
  "nullish a b = (case a of None \<Rightarrow> b | Some x \<Rightarrow> Some x)"

definition pintura_snapshot_next :: "runtime \<Rightarrow> PendingItem \<Rightarrow> SnapshotResp \<Rightarrow> pintura \<Rightarrow> pintura" where
  "pintura_snapshot_next rt mine snap st =
     (if \<not> snap_exists snap then st
      else pintura_applyPendingIfReady rt
        (st\<lparr>pin_pendingSnapshot := Some
            \<lparr>ps_color = nullish (snap_color snap) (item_color mine),
             ps_RAL = nullish (snap_RAL snap) (item_RAL mine),
             ps_checks = Some (case snap_checks snap of None \<Rightarrow> Map.empty | Some c \<Rightarrow> c),
             ps_id = nullish (snap_id snap) (Some (item_id mine))\<rparr>\<rparr>))"

text \<open>The derived values (\<open>computed\<close>).\<close>

definition pintura_colorInputsComplete :: "pintura \<Rightarrow> bool" where
  "pintura_colorInputsComplete st =
     (trim (pin_colorDescripcion st) \<noteq> [] \<and> trim (pin_colorRAL st) \<noteq> [])"

definition pintura_sectionComplete :: "Section \<Rightarrow> bool" where
  "pintura_sectionComplete s = list_all done_flag (tasks s)"

definition pintura_allComplete :: "pintura \<Rightarrow> bool" where
  "pintura_allComplete st =
     (pin_sections st \<noteq> []
      \<and> list_all pintura_sectionComplete (pin_sections st)
      \<and> pintura_colorInputsComplete st)"

text \<open>\<open>toggleTask\<close>: reading \<open>arr[sectionIndex].tasks\<close> or \<open>task.done\<close> out of range throws a
  TypeError before \<open>sections.set\<close>.\<close>

definition pintura_toggleTask :: "nat \<Rightarrow> nat \<Rightarrow> pintura \<Rightarrow> js_error + pintura" where
  "pintura_toggleTask sectionIndex taskIndex st =
     (let arr = pin_sections st in
      if sectionIndex < length arr then
        (let sec = arr ! sectionIndex in
         if taskIndex < length (tasks sec) then
           (let task = tasks sec ! taskIndex;
                sec' = sec\<lparr>tasks := (tasks sec)[taskIndex := task\<lparr>done_flag := \<not> done_flag task\<rparr>]\<rparr>
            in Inr (st\<lparr>pin_sections := arr[sectionIndex := sec']\<rparr>))
         else Inl TypeError)
      else Inl TypeError)"

datatype color_input = Descripcion | Ral

definition pintura_onColorInputChange :: "jsstring \<Rightarrow> color_input \<Rightarrow> pintura \<Rightarrow> pintura" where
  "pintura_onColorInputChange v ty st =
     (case ty of Descripcion \<Rightarrow> st\<lparr>pin_colorDescripcion := v\<rparr>
               | Ral \<Rightarrow> st\<lparr>pin_colorRAL := v\<rparr>)"

definition pintura_clearSection :: "nat \<Rightarrow> pintura \<Rightarrow> js_error + pintura" where
  "pintura_clearSection sectionIndex st =
     (let arr = pin_sections st in
      if sectionIndex < length arr then
        Inr (st\<lparr>pin_sections :=
               arr[sectionIndex := (arr ! sectionIndex)\<lparr>tasks := uncheckTasks (tasks (arr ! sectionIndex))\<rparr>]\<rparr>)
      else Inl TypeError)"

definition pintura_clearAll :: "pintura \<Rightarrow> pintura" where
  "pintura_clearAll st =
     st\<lparr>pin_sections := uncheckSections (pin_sections st),
        pin_colorDescripcion := [],
        pin_colorRAL := [],
        pin_pendingId := None\<rparr>"

definition pintura_finish :: "pintura \<Rightarrow> pintura" where
  "pintura_finish st = (if pintura_allComplete st then st\<lparr>pin_showModal := True\<rparr> else st)"

definition pintura_closeModal :: "pintura \<Rightarrow> pintura" where
  "pintura_closeModal st = st\<lparr>pin_showModal := False\<rparr>"

text \<open>\<open>afterFinish\<close>, the closure of \<open>continueAndClear\<close>. The counter is a JavaScript number,
  held here as a natural number (exact below \<open>2^53\<close>).\<close>

definition pintura_afterFinish :: "session \<Rightarrow> pintura \<Rightarrow> pintura" where
  "pintura_afterFinish ses st =
     (let newTotal = pin_dailyCount st + 1;
          st1 = st\<lparr>pin_dailyCount := newTotal,
                   pin_localStorage :=
                     (pin_localStorage st)(getCountKey (js ''PINTURA'') ses \<mapsto> stringOfNat newTotal)\<rparr>
      in (pintura_clearAll st1)\<lparr>pin_showModal := False\<rparr>)"

definition pintura_patch :: "runtime \<Rightarrow> pintura \<Rightarrow> patch" where
  "pintura_patch rt st =
     [js ''color'' \<mapsto> nullable (orNull (trim (pin_colorDescripcion st))),
      js ''RAL'' \<mapsto> nullable (orNull (trim (pin_colorRAL st)))]
     ++ buildChecksPatch rt (pin_sections st)"

definition pintura_dto :: "session \<Rightarrow> pintura \<Rightarrow> IniciarTareaDto" where
  "pintura_dto ses st =
     \<lparr>usuario_id = userId ses, area = Pintura, dto_bastidor = None,
      dto_color = orNull (trim (pin_colorDescripcion st)),
      dto_RAL = orNull (trim (pin_colorRAL st)),
      dto_checks = checksFromEntries (allTasks (pin_sections st))\<rparr>"

text \<open>\<open>continueAndClear\<close> (pintura.ts, lines 273 to 328).\<close>

definition pintura_continueAndClear :: "gateway \<Rightarrow> runtime \<Rightarrow> session \<Rightarrow> pintura \<Rightarrow> pintura" where
  "pintura_continueAndClear gw rt ses st =
     (if \<not> pintura_allComplete st then st
      else if userId ses = 0 then st
      else if truthyId (pin_pendingId st) then
        (case pin_pendingId st of
           None \<Rightarrow> st
         | Some pid \<Rightarrow>
             let patch = pintura_patch rt st;
                 st1 = pin_send (ActualizarTarea Pintura pid patch) st
             in (case gw_actualizarTarea gw Pintura pid patch of
                   Failed \<Rightarrow> pin_error (js ''Error al actualizar por id (pintura)'') st1
                 | Replied _ \<Rightarrow>
                     let st2 = pin_send (FinalizarTarea Pintura (pin_pendingId st1)) st1
                     in (case gw_finalizarTarea gw Pintura (pin_pendingId st1) of
                           Failed \<Rightarrow> pin_error (js ''Error al finalizar (pintura)'') st2
                         | Replied _ \<Rightarrow> pintura_afterFinish ses st2)))
      else
        (let dto = pintura_dto ses st;
             st1 = pin_send (IniciarTarea dto) st
         in (case gw_iniciarTarea gw dto of
               Failed \<Rightarrow> pin_error (js ''Error al iniciar en BD'') st1
             | Replied resp \<Rightarrow>
                 if \<not> truthyId (resp_id_area resp)
                 then pin_error (js ''Respuesta iniciar sin id_area'') st1
                 else
                   let st2 = pin_send (FinalizarTarea Pintura (resp_id_area resp)) st1
                   in (case gw_finalizarTarea gw Pintura (resp_id_area resp) of
                         Failed \<Rightarrow> pin_error (js ''Error al finalizar en BD'') st2
                       | Replied _ \<Rightarrow> pintura_afterFinish ses st2))))"

section \<open>Chasis\<close>

datatype VinState = Idle | Typing | Checking | Ok | Finalized | Invalid

record chasis_buffer =
  buf_vin :: jsstring
  buf_checks :: checks
  buf_id :: "nat option"

text \<open>The snapshot that the Pendientes screen leaves under \<open>SNAPSHOT_CHASIS\<close>, after
  \<open>JSON.parse\<close>.\<close>

record chasis_stored =
  stored_id :: "nat option"
  stored_bastidor :: "jsstring option"
  stored_checks :: "checks option"

text \<open>\<open>cha_timers\<close> holds the identifiers of the pending
  \<open>setTimeout(() => this.onBastidorInput(vin), 300)\<close> calls, oldest first.\<close>

record chasis =
  cha_dailyCount :: nat
  cha_loading :: bool
  cha_errorMsg :: "jsstring option"
  cha_tasks :: "Task list"
  cha_bastidor :: jsstring
  cha_vinState :: VinState
  cha_pendingId :: "nat option"
  cha_buffered :: "chasis_buffer option"
  cha_showFinishModal :: bool
  cha_localStorage :: "jsstring \<Rightarrow> jsstring option"
  cha_console :: "jsstring list"
  cha_timers :: "jsstring list"
  cha_sent :: "request list"

definition cha_send :: "request \<Rightarrow> chasis \<Rightarrow> chasis" where
  "cha_send r st = st\<lparr>cha_sent := cha_sent st @ [r]\<rparr>"

definition cha_error :: "jsstring \<Rightarrow> chasis \<Rightarrow> chasis" where
  "cha_error msg st = st\<lparr>cha_console := cha_console st @ [msg]\<rparr>"

text \<open>\<open>onBastidorInput\<close> up to the subscription (home.ts, lines 202 to 212).\<close>

definition chasis_onBastidorInput :: "runtime \<Rightarrow> jsstring \<Rightarrow> chasis \<Rightarrow> chasis" where
  "chasis_onBastidorInput rt v st =
     (let clean = chasis_clean (upperTable rt) v;
          st1 = st\<lparr>cha_bastidor := clean,
                   cha_localStorage := (cha_localStorage st)(js ''CHASIS_VIN'' \<mapsto> clean),
                   cha_pendingId := None\<rparr>
      in if clean = [] then st1\<lparr>cha_vinState := Idle\<rparr>
         else if \<not> chasis_isValidVin (upperTable rt) (Some clean) then st1\<lparr>cha_vinState := Invalid\<rparr>
         else cha_send (GetVinEstadoChasis clean) (st1\<lparr>cha_vinState := Checking\<rparr>))"

text \<open>\<open>applyPendingChecks\<close> (lines 257 to 268) and \<open>flushBufferedIfAny\<close> (lines 271 to 285).\<close>

definition chasis_applyPendingChecks :: "runtime \<Rightarrow> checks \<Rightarrow> chasis \<Rightarrow> chasis" where
  "chasis_applyPendingChecks rt ck st =
     (if cha_tasks st = []
      then st\<lparr>cha_buffered := Some \<lparr>buf_vin = cha_bastidor st, buf_checks = ck, buf_id = cha_pendingId st\<rparr>\<rparr>
      else st\<lparr>cha_tasks := markTasks rt ck (cha_tasks st)\<rparr>)"

definition chasis_flushBufferedIfAny :: "runtime \<Rightarrow> chasis \<Rightarrow> chasis" where
  "chasis_flushBufferedIfAny rt st =
     (case cha_buffered st of
        None \<Rightarrow> st
      | Some b \<Rightarrow>
          st\<lparr>cha_pendingId := buf_id b,
             cha_tasks := markTasks rt (buf_checks b) (cha_tasks st),
             cha_vinState := Ok,
             cha_timers := cha_timers st @ [buf_vin b],
             cha_buffered := None\<rparr>)"

text \<open>The callbacks of the status query (lines 213 to 225).\<close>

definition chasis_vinEstado_next :: "runtime \<Rightarrow> VinEstadoChasisResp \<Rightarrow> chasis \<Rightarrow> chasis" where
  "chasis_vinEstado_next rt resp st =
     (if status resp = StatusFinalized then st\<lparr>cha_vinState := Finalized\<rparr>
      else if status resp = StatusPending then
        (let st1 = chasis_applyPendingChecks rt
                     (case estado_checks resp of None \<Rightarrow> Map.empty | Some c \<Rightarrow> c) st
         in st1\<lparr>cha_pendingId := estado_id resp, cha_vinState := Ok\<rparr>)
      else st\<lparr>cha_vinState := Ok\<rparr>)"

definition chasis_vinEstado_error :: "chasis \<Rightarrow> chasis" where
  "chasis_vinEstado_error st = st\<lparr>cha_vinState := Invalid\<rparr>"

text \<open>The callbacks of the catalog request (lines 170 to 183).\<close>

definition chasis_catalogo_next :: "runtime \<Rightarrow> TareaCatalogo list \<Rightarrow> chasis \<Rightarrow> chasis" where
  "chasis_catalogo_next rt rows st =
     chasis_flushBufferedIfAny rt
       (st\<lparr>cha_tasks := map (\<lambda>r. \<lparr>label = cat_label r, done_flag = False\<rparr>) (filter activa rows),
           cha_loading := False\<rparr>)"

definition chasis_catalogo_error :: "chasis \<Rightarrow> chasis" where
  "chasis_catalogo_error st =
     (cha_error [] st)\<lparr>cha_errorMsg := Some (js ''No se pudieron cargar las tareas de Chasis.''),
                       cha_loading := False\<rparr>"

text \<open>The oldest pending timer fires.\<close>

definition chasis_timer_fire :: "runtime \<Rightarrow> chasis \<Rightarrow> chasis" where
  "chasis_timer_fire rt st =
     (case cha_timers st of
        [] \<Rightarrow> st
      | v # vs \<Rightarrow> chasis_onBastidorInput rt v (st\<lparr>cha_timers := vs\<rparr>))"

definition chasis_clearBastidor :: "chasis \<Rightarrow> chasis" where
  "chasis_clearBastidor st =
     st\<lparr>cha_bastidor := [],
        cha_vinState := Idle,
        cha_pendingId := None,
        cha_localStorage := (cha_localStorage st)(js ''CHASIS_VIN'' := None)\<rparr>"

text \<open>\<open>queueOrApplyChecks\<close> and \<open>consumeSnapshotIfAny\<close> (lines 464 to 507): the entry from the
  Pendientes screen. \<open>JSON.parse\<close> is the parameter \<open>parse\<close>; \<open>Failed\<close> is its exception.\<close>

definition chasis_queueOrApplyChecks :: "runtime \<Rightarrow> jsstring \<Rightarrow> checks \<Rightarrow> nat option \<Rightarrow> chasis \<Rightarrow> chasis" where
  "chasis_queueOrApplyChecks rt vin ck i st =
     (let st1 = st\<lparr>cha_pendingId := i,
                   cha_bastidor := vin,
                   cha_localStorage := (cha_localStorage st)(js ''CHASIS_VIN'' \<mapsto> vin)\<rparr>
      in if cha_tasks st1 = []
         then st1\<lparr>cha_buffered := Some \<lparr>buf_vin = vin, buf_checks = ck, buf_id = cha_pendingId st1\<rparr>\<rparr>
         else chasis_applyPendingChecks rt ck st1)"

definition chasis_consumeSnapshotIfAny ::
  "runtime \<Rightarrow> (jsstring \<Rightarrow> chasis_stored reply) \<Rightarrow> chasis \<Rightarrow> chasis" where
  "chasis_consumeSnapshotIfAny rt parse st =
     (case cha_localStorage st (js ''SNAPSHOT_CHASIS'') of
        None \<Rightarrow> st
      | Some raw \<Rightarrow>
          if raw = [] then st
          else
            let st0 = st\<lparr>cha_localStorage := (cha_localStorage st)(js ''SNAPSHOT_CHASIS'' := None)\<rparr>
            in (case parse raw of
                  Failed \<Rightarrow> st0
                | Replied snap \<Rightarrow>
                    let vin = trim (toUpperCase (upperTable rt) (orEmpty (stored_bastidor snap)));
                        ck = (case stored_checks snap of None \<Rightarrow> Map.empty | Some c \<Rightarrow> c);
                        st1 = st0\<lparr>cha_pendingId := stored_id snap\<rparr>
                    in if vin = [] then st1\<lparr>cha_vinState := Idle\<rparr>
                       else
                         let st2 = chasis_queueOrApplyChecks rt vin ck (cha_pendingId st1) st1
                         in st2\<lparr>cha_vinState := Ok, cha_timers := cha_timers st2 @ [vin]\<rparr>))"

text \<open>\<open>toggleTask(i)\<close>: \<open>arr[i].done\<close> out of range throws a TypeError.\<close>

definition chasis_toggleTask :: "nat \<Rightarrow> chasis \<Rightarrow> js_error + chasis" where
  "chasis_toggleTask i st =
     (let arr = cha_tasks st in
      if i < length arr
      then Inr (st\<lparr>cha_tasks := arr[i := (arr ! i)\<lparr>done_flag := \<not> done_flag (arr ! i)\<rparr>]\<rparr>)
      else Inl TypeError)"

definition chasis_clearAll :: "chasis \<Rightarrow> chasis" where
  "chasis_clearAll st = chasis_clearBastidor (st\<lparr>cha_tasks := uncheckTasks (cha_tasks st)\<rparr>)"

definition chasis_total :: "chasis \<Rightarrow> nat" where
  "chasis_total st = length (cha_tasks st)"

definition chasis_doneCount :: "chasis \<Rightarrow> nat" where
  "chasis_doneCount st = length (filter done_flag (cha_tasks st))"

definition chasis_allComplete :: "chasis \<Rightarrow> bool" where
  "chasis_allComplete st = (chasis_total st > 0 \<and> chasis_doneCount st = chasis_total st)"

definition chasis_canFinish :: "chasis \<Rightarrow> bool" where
  "chasis_canFinish st = (chasis_allComplete st \<and> cha_vinState st = Ok)"

definition chasis_finish :: "chasis \<Rightarrow> chasis" where
  "chasis_finish st = (if chasis_canFinish st then st\<lparr>cha_showFinishModal := True\<rparr> else st)"

definition chasis_closeFinishModal :: "chasis \<Rightarrow> chasis" where
  "chasis_closeFinishModal st = st\<lparr>cha_showFinishModal := False\<rparr>"

definition chasis_dto :: "session \<Rightarrow> chasis \<Rightarrow> IniciarTareaDto" where
  "chasis_dto ses st =
     \<lparr>usuario_id = userId ses, area = Chasis, dto_bastidor = orNull (cha_bastidor st),
      dto_color = None, dto_RAL = None,
      dto_checks = buildChecksPayload (cha_tasks st)\<rparr>"

definition chasis_afterFinish :: "session \<Rightarrow> chasis \<Rightarrow> chasis" where
  "chasis_afterFinish ses st =
     (let newTotal = cha_dailyCount st + 1;
          st1 = st\<lparr>cha_dailyCount := newTotal,
                   cha_localStorage :=
                     (cha_localStorage st)(getCountKey (js ''CHASIS'') ses \<mapsto> stringOfNat newTotal)\<rparr>
      in chasis_closeFinishModal (chasis_clearAll st1))"

text \<open>\<open>continueAndClear\<close> (home.ts, lines 329 to 383): case A sends \<open>iniciarTarea\<close> too and
  finalizes \<open>upsertId ?? this._pendingId\<close>.\<close>

definition chasis_continueAndClear :: "gateway \<Rightarrow> session \<Rightarrow> chasis \<Rightarrow> chasis" where
  "chasis_continueAndClear gw ses st =
     (if \<not> chasis_canFinish st then st
      else if userId ses = 0 then st
      else
        let dto = chasis_dto ses st;
            st1 = cha_send (IniciarTarea dto) st
        in if truthyId (cha_pendingId st) then
             (case gw_iniciarTarea gw dto of
                Failed \<Rightarrow> cha_error (js ''Error al actualizar pendiente antes de finalizar'') st1
              | Replied resp \<Rightarrow>
                  let idToFinish = nullish (resp_id_area resp) (cha_pendingId st1);
                      st2 = cha_send (FinalizarTarea Chasis idToFinish) st1
                  in (case gw_finalizarTarea gw Chasis idToFinish of
                        Failed \<Rightarrow> cha_error (js ''Error al finalizar en BD'') st2
                      | Replied _ \<Rightarrow> chasis_afterFinish ses st2))
           else
             (case gw_iniciarTarea gw dto of
                Failed \<Rightarrow> cha_error (js ''Error al iniciar en BD'') st1
              | Replied resp \<Rightarrow>
                  if \<not> truthyId (resp_id_area resp)
                  then cha_error (js ''Respuesta iniciar sin id_area:'') st1
                  else
                    let st2 = cha_send (FinalizarTarea Chasis (resp_id_area resp)) st1
                    in (case gw_finalizarTarea gw Chasis (resp_id_area resp) of
                          Failed \<Rightarrow> cha_error (js ''Error al finalizar en BD'') st2
                        | Replied _ \<Rightarrow> chasis_afterFinish ses st2)))"

text \<open>
  What the operator can do on the screen without touching the VIN field: check or uncheck an
  item, press Finalizar, close or confirm its dialog. A TypeError ends that one handler and
  leaves the state as it was.
\<close>

datatype chasis_action =
    ToggleTask nat
  | Finish
  | CloseFinishModal
  | ContinueAndClear gateway session

definition chasis_act :: "chasis_action \<Rightarrow> chasis \<Rightarrow> chasis" where
  "chasis_act a st =
     (case a of
        ToggleTask i \<Rightarrow> (case chasis_toggleTask i st of Inl e \<Rightarrow> st | Inr st' \<Rightarrow> st')
      | Finish \<Rightarrow> chasis_finish st
      | CloseFinishModal \<Rightarrow> chasis_closeFinishModal st
      | ContinueAndClear gw ses \<Rightarrow> chasis_continueAndClear gw ses st)"

definition chasis_run :: "chasis_action list \<Rightarrow> chasis \<Rightarrow> chasis" where
  "chasis_run as st = fold chasis_act as st"

section \<open>Premontaje\<close>

text \<open>The fields that the readiness predicate and \<open>toggleTask\<close> read or write, and the
  pending id beside them.\<close>

record premontaje =
  pre_dailyCount :: nat
  pre_vehicleColorHex :: jsstring
  pre_vehicleColorName :: jsstring
  pre_sections :: "Section list"
  pre_pendingId :: "nat option"
  pre_showModal :: bool

definition premontaje_sectionComplete :: "Section \<Rightarrow> bool" where
  "premontaje_sectionComplete s = (length (tasks s) > 0 \<and> list_all done_flag (tasks s))"

definition premontaje_allSectionsDone :: "premontaje \<Rightarrow> bool" where
  "premontaje_allSectionsDone st =
     (length (pre_sections st) > 0 \<and> list_all premontaje_sectionComplete (pre_sections st))"

definition premontaje_validColor :: "premontaje \<Rightarrow> bool" where
  "premontaje_validColor st = (pre_vehicleColorHex st \<noteq> [])"

definition premontaje_allComplete :: "premontaje \<Rightarrow> bool" where
  "premontaje_allComplete st = (premontaje_allSectionsDone st \<and> premontaje_validColor st)"

definition premontaje_toggleTask :: "nat \<Rightarrow> nat \<Rightarrow> premontaje \<Rightarrow> js_error + premontaje" where
  "premontaje_toggleTask sectionIndex taskIndex st =
     (let copy = pre_sections st in
      if sectionIndex < length copy then
        (let sec = copy ! sectionIndex in
         if taskIndex < length (tasks sec) then
           Inr (st\<lparr>pre_sections := copy[sectionIndex :=
                  sec\<lparr>tasks := (tasks sec)[taskIndex :=
                    (tasks sec ! taskIndex)\<lparr>done_flag := \<not> done_flag (tasks sec ! taskIndex)\<rparr>]\<rparr>]\<rparr>)
         else Inl TypeError)
      else Inl TypeError)"

section \<open>Montaje\<close>

datatype VinStatus = MIdle | MTyping | MChecking | MOk | MDup | MNotfound | MInvalid

text \<open>The fields that the VIN handling, the readiness predicate and \<open>continueAndClear\<close> read or
  write. The screen has no \<open>_pendingId\<close> field: its \<open>applyPendingIfReady\<close> drops the id of the
  snapshot.\<close>

record montaje =
  mon_dailyCount :: nat
  mon_vehicleColorHex :: jsstring
  mon_vehicleColorName :: jsstring
  mon_bastidorOptions :: "jsstring list"
  mon_vinQuery :: jsstring
  mon_selectedBastidor :: jsstring
  mon_vinEnUso :: bool
  mon_vinStatus :: VinStatus
  mon_sections :: "Section list"
  mon_showModal :: bool
  mon_localStorage :: "jsstring \<Rightarrow> jsstring option"
  mon_console :: "jsstring list"
  mon_sent :: "request list"

definition mon_send :: "request \<Rightarrow> montaje \<Rightarrow> montaje" where
  "mon_send r st = st\<lparr>mon_sent := mon_sent st @ [r]\<rparr>"

definition mon_error :: "jsstring \<Rightarrow> montaje \<Rightarrow> montaje" where
  "mon_error msg st = st\<lparr>mon_console := mon_console st @ [msg]\<rparr>"

definition montaje_inDbList :: "(nat \<Rightarrow> nat list) \<Rightarrow> jsstring \<Rightarrow> montaje \<Rightarrow> bool" where
  "montaje_inDbList U v st = (toUpperCase U v \<in> set (mon_bastidorOptions st))"

definition montaje_sectionComplete :: "Section \<Rightarrow> bool" where
  "montaje_sectionComplete s = (length (tasks s) > 0 \<and> list_all done_flag (tasks s))"

definition montaje_allSectionsDone :: "montaje \<Rightarrow> bool" where
  "montaje_allSectionsDone st =
     (length (mon_sections st) > 0 \<and> list_all montaje_sectionComplete (mon_sections st))"

definition montaje_canFinish :: "(nat \<Rightarrow> nat list) \<Rightarrow> montaje \<Rightarrow> bool" where
  "montaje_canFinish U st =
     (montaje_allSectionsDone st
      \<and> mon_vehicleColorHex st \<noteq> []
      \<and> montaje_isValidVin U (Some (mon_selectedBastidor st))
      \<and> montaje_inDbList U (mon_selectedBastidor st) st
      \<and> \<not> mon_vinEnUso st
      \<and> mon_vinStatus st = MOk)"

text \<open>\<open>onVinInput\<close> up to the subscription (lines 975 to 996 of the Montaje screen), and the
  callbacks of the availability query (lines 997 to 1057); the handlers of the two requests
  that a free VIN starts are not modelled.\<close>

definition montaje_onVinInput :: "(nat \<Rightarrow> nat list) \<Rightarrow> jsstring \<Rightarrow> montaje \<Rightarrow> montaje" where
  "montaje_onVinInput U v st =
     (let clean = montaje_clean U v;
          st1 = st\<lparr>mon_vinQuery := clean, mon_selectedBastidor := clean, mon_vinEnUso := False\<rparr>
      in if clean = [] then st1\<lparr>mon_vinStatus := MIdle\<rparr>
         else if \<not> montaje_inDbList U clean st1 then st1\<lparr>mon_vinStatus := MNotfound\<rparr>
         else mon_send (IsVinDisponibleEnMontaje clean) (st1\<lparr>mon_vinStatus := MChecking\<rparr>))"

definition montaje_disponible_next :: "session \<Rightarrow> jsstring \<Rightarrow> bool \<Rightarrow> montaje \<Rightarrow> montaje" where
  "montaje_disponible_next ses clean available st =
     (let st1 = st\<lparr>mon_vinEnUso := \<not> available,
                   mon_vinStatus := (if available then MOk else MDup)\<rparr>
      in if available
         then mon_send (GetPendiente Montaje clean (userId ses))
                (mon_send (GetColorPinturaPorVin clean) st1)
         else st1)"

definition montaje_disponible_error :: "montaje \<Rightarrow> montaje" where
  "montaje_disponible_error st = st\<lparr>mon_vinEnUso := False, mon_vinStatus := MInvalid\<rparr>"

definition montaje_clearVehicle :: "montaje \<Rightarrow> montaje" where
  "montaje_clearVehicle st =
     st\<lparr>mon_vehicleColorHex := [], mon_vehicleColorName := [], mon_selectedBastidor := [],
        mon_vinQuery := [], mon_vinEnUso := False, mon_vinStatus := MIdle\<rparr>"

definition montaje_clearAll :: "montaje \<Rightarrow> montaje" where
  "montaje_clearAll st =
     montaje_clearVehicle (st\<lparr>mon_sections := uncheckSections (mon_sections st)\<rparr>)"

definition montaje_dto :: "session \<Rightarrow> montaje \<Rightarrow> IniciarTareaDto" where
  "montaje_dto ses st =
     \<lparr>usuario_id = userId ses, area = Montaje,
      dto_bastidor = orNull (mon_selectedBastidor st),
      dto_color = orNull (mon_vehicleColorHex st), dto_RAL = None,
      dto_checks = buildChecksPayload (allTasks (mon_sections st))\<rparr>"

definition montaje_afterFinish :: "session \<Rightarrow> montaje \<Rightarrow> montaje" where
  "montaje_afterFinish ses st =
     (let newTotal = mon_dailyCount st + 1;
          st1 = st\<lparr>mon_dailyCount := newTotal,
                   mon_localStorage :=
                     (mon_localStorage st)(getCountKey (js ''MONTAJE'') ses \<mapsto> stringOfNat newTotal)\<rparr>
      in (montaje_clearAll st1)\<lparr>mon_showModal := False\<rparr>)"

text \<open>\<open>continueAndClear\<close> of Montaje (lines 1104 to 1140): always start, then finalize the id
  of the reply.\<close>

definition montaje_continueAndClear :: "gateway \<Rightarrow> (nat \<Rightarrow> nat list) \<Rightarrow> session \<Rightarrow> montaje \<Rightarrow> montaje" where
  "montaje_continueAndClear gw U ses st =
     (if \<not> montaje_canFinish U st then st
      else if userId ses = 0 then st
      else
        let dto = montaje_dto ses st;
            st1 = mon_send (IniciarTarea dto) st
        in (case gw_iniciarTarea gw dto of
              Failed \<Rightarrow> mon_error (js ''Error al iniciar en BD'') st1
            | Replied resp \<Rightarrow>
                if \<not> truthyId (resp_id_area resp)
                then mon_error (js ''Respuesta iniciar sin id_area'') st1
                else
                  let st2 = mon_send (FinalizarTarea Montaje (resp_id_area resp)) st1
                  in (case gw_finalizarTarea gw Montaje (resp_id_area resp) of
                        Failed \<Rightarrow> mon_error (js ''Error al finalizar en BD'') st2
                      | Replied _ \<Rightarrow> montaje_afterFinish ses st2)))"

section \<open>The states of the Pintura screen\<close>

text \<open>
  The screen starts with no section (the initial value of the \<open>sections\<close> signal), and every
  handler above may run, in any order and with any arguments. The handlers of the leave dialog
  change the checklist through \<open>clearAll\<close> only.
\<close>

inductive pintura_reach :: "runtime \<Rightarrow> pintura \<Rightarrow> bool" for rt :: runtime where
  reach_init: "pin_sections st = [] \<Longrightarrow> pintura_reach rt st"
| reach_cargar: "pintura_reach rt st \<Longrightarrow> pintura_reach rt (pintura_cargarTareasDesdeBD st)"
| reach_catalogo_next: "pintura_reach rt st \<Longrightarrow> pintura_reach rt (pintura_catalogo_next rt rows st)"
| reach_catalogo_error: "pintura_reach rt st \<Longrightarrow> pintura_reach rt (pintura_catalogo_error st)"
| reach_autoResume: "pintura_reach rt st \<Longrightarrow> pintura_reach rt (pintura_autoResumeFromUserPending ses st)"
| reach_pendientes_next: "pintura_reach rt st \<Longrightarrow> pintura_reach rt (pintura_pendientes_next items st)"
| reach_snapshot_next: "pintura_reach rt st \<Longrightarrow> pintura_reach rt (pintura_snapshot_next rt mine snap st)"
| reach_toggleTask: "pintura_reach rt st \<Longrightarrow> pintura_toggleTask i j st = Inr st' \<Longrightarrow> pintura_reach rt st'"
| reach_onColorInputChange: "pintura_reach rt st \<Longrightarrow> pintura_reach rt (pintura_onColorInputChange v ty st)"
| reach_clearSection: "pintura_reach rt st \<Longrightarrow> pintura_clearSection i st = Inr st' \<Longrightarrow> pintura_reach rt st'"
| reach_clearAll: "pintura_reach rt st \<Longrightarrow> pintura_reach rt (pintura_clearAll st)"
| reach_finish: "pintura_reach rt st \<Longrightarrow> pintura_reach rt (pintura_finish st)"
| reach_closeModal: "pintura_reach rt st \<Longrightarrow> pintura_reach rt (pintura_closeModal st)"
| reach_continueAndClear: "pintura_reach rt st \<Longrightarrow> pintura_reach rt (pintura_continueAndClear gw rt ses st)"

text \<open>The invariant of these states: no section without items.\<close>

definition nonEmptySections :: "Section list \<Rightarrow> bool" where
  "nonEmptySections secs = list_all (\<lambda>s. tasks s \<noteq> []) secs"

section \<open>What the gateway answered to a request\<close>



section \<open>Inputs of the closed examples\<close>

text \<open>
  The runtime on the inputs of the examples: ASCII labels, where \<open>toLowerCase\<close> maps \<open>A-Z\<close>
  and NFD changes nothing, and a catalog of one section, whose sort never calls the comparator.
\<close>

definition asciiRuntime :: runtime where
  "asciiRuntime =
     \<lparr>upperTable = (\<lambda>c. [c]), toLowerCase = map lowerAscii,
      normalizeNFD = (\<lambda>s. s), localeCompare = (\<lambda>a b. 0)\<rparr>"

text \<open>The catalog of the specification's scenario: one section, two items.\<close>

definition exampleRows :: "TareaCatalogo list" where
  "exampleRows =
     [\<lparr>cat_id = 1, cat_proceso = Chasis, seccion = Some (js ''Fase 1''),
       cat_label = js ''Montar estribera'', activa = True\<rparr>,
      \<lparr>cat_id = 2, cat_proceso = Chasis, seccion = Some (js ''Fase 1''),
       cat_label = js ''Ajustar faro'', activa = True\<rparr>]"

definition exampleChecks :: checks where
  "exampleChecks = [js ''montar_estribera'' \<mapsto> True, js ''ajustar_faro'' \<mapsto> False]"

definition exampleSession :: session where
  "exampleSession = \<lparr>userId = 3, userEmail = js ''ana@example.com'', today = js ''2025-12-01''\<rparr>"

definition exampleVin :: jsstring where
  "exampleVin = js ''1HGCM82633A004352''"

text \<open>The screens as their field initialisers leave them (the storage of the browser
  empty).\<close>

definition pintura_initial :: pintura where
  "pintura_initial =
     \<lparr>pin_dailyCount = 0, pin_loading = False, pin_errorMsg = None,
      pin_colorDescripcion = [], pin_colorRAL = [], pin_sections = [],
      pin_pendingId = None, pin_pendingSnapshot = None, pin_showModal = False,
      pin_localStorage = Map.empty, pin_console = [], pin_sent = []\<rparr>"

definition chasis_initial :: chasis where
  "chasis_initial =
     \<lparr>cha_dailyCount = 0, cha_loading = False, cha_errorMsg = None, cha_tasks = [],
      cha_bastidor = [], cha_vinState = Idle, cha_pendingId = None, cha_buffered = None,
      cha_showFinishModal = False, cha_localStorage = Map.empty, cha_console = [],
      cha_timers = [], cha_sent = []\<rparr>"

definition montaje_initial :: montaje where
  "montaje_initial =
     \<lparr>mon_dailyCount = 0, mon_vehicleColorHex = [], mon_vehicleColorName = [],
      mon_bastidorOptions = [], mon_vinQuery = [], mon_selectedBastidor = [],
      mon_vinEnUso = False, mon_vinStatus = MIdle, mon_sections = [], mon_showModal = False,
      mon_localStorage = Map.empty, mon_console = [], mon_sent = []\<rparr>"

definition premontaje_initial :: premontaje where
  "premontaje_initial =
     \<lparr>pre_dailyCount = 0, pre_vehicleColorHex = [], pre_vehicleColorName = [],
      pre_sections = [], pre_pendingId = None, pre_showModal = False\<rparr>"

text \<open>The two items checked, and the one section that holds them.\<close>

definition exampleTasks :: "Task list" where
  "exampleTasks =
     [\<lparr>label = js ''Montar estribera'', done_flag = True\<rparr>,
      \<lparr>label = js ''Ajustar faro'', done_flag = True\<rparr>]"

definition exampleSections :: "Section list" where
  "exampleSections = [\<lparr>name = js ''Fase 1'', tasks = exampleTasks\<rparr>]"

text \<open>A section without items.\<close>

definition emptySection :: Section where
  "emptySection = \<lparr>name = js ''Fase 1'', tasks = []\<rparr>"

text \<open>A reply of the status query of Chasis: a pending record with id 7.\<close>

definition examplePending :: VinEstadoChasisResp where
  "examplePending = \<lparr>status = StatusPending, estado_id = Some 7, estado_checks = Some exampleChecks\<rparr>"

text \<open>Chasis with no catalog yet and a VIN typed: the status query is on its way.\<close>

definition chasis_typed :: chasis where
  "chasis_typed = chasis_onBastidorInput asciiRuntime exampleVin chasis_initial"

text \<open>The two orders of arrival: the pending reply before the catalog, and after it.\<close>

definition chasis_reply_then_catalog :: chasis where
  "chasis_reply_then_catalog =
     chasis_catalogo_next asciiRuntime exampleRows
       (chasis_vinEstado_next asciiRuntime examplePending chasis_typed)"

definition chasis_catalog_then_reply :: chasis where
  "chasis_catalog_then_reply =
     chasis_vinEstado_next asciiRuntime examplePending
       (chasis_catalogo_next asciiRuntime exampleRows chasis_typed)"

text \<open>
  Chasis entered from the Pendientes screen with a stored snapshot whose two checks are set
  (the text under \<open>SNAPSHOT_CHASIS\<close> stands for its JSON, which \<open>parse\<close> reads): the snapshot
  is buffered, the revalidation timer fires, the status query answers \<open>finalized\<close>, and then
  the catalog arrives.
\<close>

definition exampleStored :: chasis_stored where
  "exampleStored =
     \<lparr>stored_id = Some 5, stored_bastidor = Some exampleVin,
      stored_checks = Some [js ''montar_estribera'' \<mapsto> True, js ''ajustar_faro'' \<mapsto> True]\<rparr>"

definition chasis_from_pendientes :: chasis where
  "chasis_from_pendientes =
     chasis_initial\<lparr>cha_localStorage := [js ''SNAPSHOT_CHASIS'' \<mapsto> js ''stored snapshot'']\<rparr>"

definition chasis_resumed_finalized :: chasis where
  "chasis_resumed_finalized =
     chasis_vinEstado_next asciiRuntime
       \<lparr>status = StatusFinalized, estado_id = None, estado_checks = None\<rparr>
       (chasis_timer_fire asciiRuntime
          (chasis_consumeSnapshotIfAny asciiRuntime (\<lambda>raw. Replied exampleStored)
             chasis_from_pendientes))"

definition chasis_resumed_flushed :: chasis where
  "chasis_resumed_flushed = chasis_catalogo_next asciiRuntime exampleRows chasis_resumed_finalized"

text \<open>A gateway that accepts every request and answers a start with \<open>id_area = 9\<close>; one whose
  start reply carries no id; one that rejects every request.\<close>

definition gatewayOk :: gateway where
  "gatewayOk =
     \<lparr>gw_iniciarTarea = (\<lambda>dto. Replied \<lparr>resp_id = None, resp_idArea = None,
                                         resp_id_area = Some 9, resp_status = None\<rparr>),
      gw_actualizarTarea = (\<lambda>p i pt. Replied ()),
      gw_finalizarTarea = (\<lambda>p i. Replied ())\<rparr>"

definition gatewayNoId :: gateway where
  "gatewayNoId =
     \<lparr>gw_iniciarTarea = (\<lambda>dto. Replied \<lparr>resp_id = None, resp_idArea = None,
                                         resp_id_area = None, resp_status = None\<rparr>),
      gw_actualizarTarea = (\<lambda>p i pt. Replied ()),
      gw_finalizarTarea = (\<lambda>p i. Replied ())\<rparr>"



text \<open>Pintura and Chasis ready to finalize, with and without a pending id.\<close>

definition pintura_ready :: "nat option \<Rightarrow> pintura" where
  "pintura_ready pid =
     pintura_initial\<lparr>pin_sections := exampleSections, pin_colorDescripcion := js ''Rojo'',
                     pin_colorRAL := js ''3020'', pin_pendingId := pid, pin_showModal := True\<rparr>"

definition chasis_ready :: "nat option \<Rightarrow> chasis" where
  "chasis_ready pid =
     chasis_initial\<lparr>cha_tasks := exampleTasks, cha_bastidor := exampleVin,
                    cha_vinState := Ok, cha_pendingId := pid, cha_showFinishModal := True\<rparr>"

text \<open>Pintura ready to finalize the record 7, with a catalog whose one item is labelled
  \<open>Color\<close>.\<close>

definition pintura_color_item :: pintura where
  "pintura_color_item =
     (pintura_ready (Some 7))
       \<lparr>pin_sections := [\<lparr>name = js ''Fase 1'', tasks = [\<lparr>label = js ''Color'', done_flag = True\<rparr>]\<rparr>]\<rparr>"

text \<open>Pintura after the catalog of the scenario has loaded and both colour fields are typed:
  nothing is checked yet.\<close>

definition pintura_loaded :: pintura where
  "pintura_loaded =
     pintura_onColorInputChange (js ''3020'') Ral
       (pintura_onColorInputChange (js ''Rojo'') Descripcion
          (pintura_catalogo_next asciiRuntime exampleRows pintura_initial))"

definition montaje_ready :: montaje where
  "montaje_ready =
     montaje_initial\<lparr>mon_sections := exampleSections, mon_vehicleColorHex := js ''Rojo'',
                     mon_vehicleColorName := js ''Rojo'', mon_bastidorOptions := [exampleVin],
                     mon_vinQuery := exampleVin, mon_selectedBastidor := exampleVin,
                     mon_vinStatus := MOk, mon_showModal := True\<rparr>"

section \<open>Results\<close>

subsection \<open>The numbers of the section names\<close>

text \<open>Below \<open>2^53\<close> a natural number is its own double; above, odd numbers are not.\<close>

lemma bitLength_le: "n < 2 ^ k \<Longrightarrow> bitLength n \<le> k"
proof (induction k arbitrary: n)
  case 0
  then show ?case by (simp add: bitLength.simps)
next
  case (Suc k)
  show ?case
  proof (cases "n = 0")
    case True
    then show ?thesis by (simp add: bitLength.simps)
  next
    case False
    from Suc.prems have "n div 2 < 2 ^ k" by simp
    then have "bitLength (n div 2) \<le> k" by (rule Suc.IH)
    then show ?thesis using False by (subst bitLength.simps) simp
  qed
qed

lemma toDouble_exact: "n < 2 ^ 53 \<Longrightarrow> toDouble n = Some n"
  using bitLength_le [of n 53] by (simp add: toDouble_def Let_def)

lemma parseInt10_example: "parseInt10 (js ''12'') = Some 12"
  using toDouble_exact [of 12] by (simp add: parseInt10_def js_def)

lemma toDouble_rounds:
  "toDouble 9007199254740993 = Some 9007199254740992"
  "toDouble 9007199254740995 = Some 9007199254740996"
  by (simp_all add: toDouble_def Let_def bitLength.simps)

lemma vinChar_upper_fixed: "vinChar c \<Longrightarrow> upperCodePoint U c = [c]"
  by (auto simp: vinChar_def upperCodePoint_def isUpperAZ_def isDigit_def isLowerAZ_def)

lemma toUpperCase_vin_fixed: "list_all vinChar s \<Longrightarrow> toUpperCase U s = s"
  by (induction s) (simp_all add: toUpperCase_def vinChar_upper_fixed)

lemma stripNonVin_all: "list_all vinChar (stripNonVin s)"
  by (simp add: stripNonVin_def list_all_iff)

lemma stripNonVin_fixed: "list_all vinChar s \<Longrightarrow> stripNonVin s = s"
  by (simp add: stripNonVin_def list_all_iff)

lemma list_all_take: "list_all P s \<Longrightarrow> list_all P (take n s)"
  by (auto simp: list_all_iff dest: in_set_takeD)

lemma chasis_clean_all: "list_all vinChar (chasis_clean U v)"
  by (simp add: chasis_clean_def list_all_take stripNonVin_all)

lemma chasis_clean_length: "length (chasis_clean U v) \<le> 17"
  by (simp add: chasis_clean_def)

lemma chasis_clean_idem: "chasis_clean U (chasis_clean U v) = chasis_clean U v"
proof -
  let ?c = "chasis_clean U v"
  have "toUpperCase U ?c = ?c"
    by (rule toUpperCase_vin_fixed) (rule chasis_clean_all)
  moreover have "stripNonVin ?c = ?c"
    by (rule stripNonVin_fixed) (rule chasis_clean_all)
  moreover have "take 17 ?c = ?c"
    using chasis_clean_length [of U v] by simp
  ultimately show ?thesis
    by (simp add: chasis_clean_def [of U "chasis_clean U v"])
qed

lemma montaje_clean_all: "list_all vinChar (montaje_clean U v)"
  by (simp add: montaje_clean_def stripNonVin_all)

lemma montaje_clean_idem: "montaje_clean U (montaje_clean U v) = montaje_clean U v"
proof -
  let ?c = "montaje_clean U v"
  have "toUpperCase U ?c = ?c"
    by (rule toUpperCase_vin_fixed) (rule montaje_clean_all)
  moreover have "stripNonVin ?c = ?c"
    by (rule stripNonVin_fixed) (rule montaje_clean_all)
  ultimately show ?thesis
    by (simp add: montaje_clean_def [of U "montaje_clean U v"])
qed

lemmas char_defs = js_def isUpperAZ_def isLowerAZ_def isDigit_def vinChar_def colChar_def
  jsWhiteSpace_def combiningMark_def lowerAscii_def

subsection \<open>VIN normalisation\<close>

text \<open>
  Claim C5, as amended. The normalisation of Chasis (upper case, strip what is outside
  \<open>[A-Z0-9]\<close>, first 17 characters) is idempotent, and its output has at most 17 characters,
  all in \<open>[A-Z0-9]\<close>. The normalisation of Montaje has no truncation: it is idempotent and its
  output is in \<open>[A-Z0-9]\<close>, of any length.
\<close>

theorem vin_normalisation:
  "chasis_clean U (chasis_clean U v) = chasis_clean U v
   \<and> length (chasis_clean U v) \<le> 17
   \<and> matchesVinStar (chasis_clean U v)
   \<and> montaje_clean U (montaje_clean U v) = montaje_clean U v
   \<and> matchesVinStar (montaje_clean U v)"
  by (simp add: chasis_clean_idem chasis_clean_length chasis_clean_all
      montaje_clean_idem montaje_clean_all matchesVinStar_def)

text \<open>Claim C5 as stated fails in Montaje: eighteen letters stay eighteen.\<close>

theorem montaje_clean_not_truncated:
  "\<not> length (montaje_clean (\<lambda>c. [c]) (js ''ABCDEFGHJKLMNPRSTU'')) \<le> 17"
  by (simp add: montaje_clean_def stripNonVin_def toUpperCase_def upperCodePoint_def char_defs)

subsection \<open>The validity predicate and the status query\<close>

lemma chasis_clean_valid:
  "chasis_isValidVin U (Some (chasis_clean U v)) = matchesVin17 (chasis_clean U v)"
proof -
  have "toUpperCase U (chasis_clean U v) = chasis_clean U v"
    by (rule toUpperCase_vin_fixed) (rule chasis_clean_all)
  then show ?thesis
    by (auto simp: chasis_isValidVin_def matchesVin17_def)
qed

lemma chasis_onBastidorInput_sent:
  "cha_sent (chasis_onBastidorInput rt v st) =
     cha_sent st @ (if matchesVin17 (chasis_clean (upperTable rt) v)
                    then [GetVinEstadoChasis (chasis_clean (upperTable rt) v)] else [])"
proof -
  have e: "chasis_clean (upperTable rt) v = [] \<Longrightarrow> \<not> matchesVin17 (chasis_clean (upperTable rt) v)"
    by (simp add: matchesVin17_def)
  show ?thesis
    using e by (simp add: chasis_onBastidorInput_def Let_def chasis_clean_valid cha_send_def)
qed

lemma montaje_onVinInput_sent:
  "mon_sent (montaje_onVinInput U v m) =
     mon_sent m @ (if montaje_clean U v \<noteq> [] \<and> montaje_clean U v \<in> set (mon_bastidorOptions m)
                   then [IsVinDisponibleEnMontaje (montaje_clean U v)] else [])"
proof -
  have "toUpperCase U (montaje_clean U v) = montaje_clean U v"
    by (rule toUpperCase_vin_fixed) (rule montaje_clean_all)
  then show ?thesis
    by (simp add: montaje_onVinInput_def Let_def montaje_inDbList_def mon_send_def)
qed

text \<open>
  Claim C6, as amended. In Chasis \<open>isValidVin\<close> accepts exactly the non-empty strings whose
  upper-case form matches \<open>^[A-Z0-9]{17}$\<close>, hence every string that matches it, and
  \<open>onBastidorInput\<close> sends the status query exactly when the normalised input matches it, for
  the normalised input. In Montaje \<open>isValidVin\<close> accepts exactly the non-empty strings whose
  upper-case form matches \<open>^[A-Z0-9]+$\<close>, of any length, and \<open>onVinInput\<close> sends the
  availability query exactly when the normalised input is not empty and is in the list of
  known VINs.
\<close>

theorem vin_query_gate:
  "(chasis_isValidVin U (Some s) = (s \<noteq> [] \<and> matchesVin17 (toUpperCase U s)))
   \<and> (matchesVin17 s \<longrightarrow> chasis_isValidVin U (Some s))
   \<and> cha_sent (chasis_onBastidorInput rt v st) =
       cha_sent st @ (if matchesVin17 (chasis_clean (upperTable rt) v)
                      then [GetVinEstadoChasis (chasis_clean (upperTable rt) v)] else [])
   \<and> (montaje_isValidVin U (Some s) = (s \<noteq> [] \<and> matchesVinPlus (toUpperCase U s)))
   \<and> mon_sent (montaje_onVinInput U v m) =
       mon_sent m @ (if montaje_clean U v \<noteq> [] \<and> montaje_clean U v \<in> set (mon_bastidorOptions m)
                     then [IsVinDisponibleEnMontaje (montaje_clean U v)] else [])"
proof -
  have b: "matchesVin17 s \<longrightarrow> chasis_isValidVin U (Some s)"
  proof
    assume m: "matchesVin17 s"
    then have "toUpperCase U s = s"
      by (simp add: matchesVin17_def toUpperCase_vin_fixed)
    with m show "chasis_isValidVin U (Some s)"
      by (auto simp: chasis_isValidVin_def matchesVin17_def)
  qed
  have a: "chasis_isValidVin U (Some s) = (s \<noteq> [] \<and> matchesVin17 (toUpperCase U s))"
    by (simp add: chasis_isValidVin_def)
  have d: "montaje_isValidVin U (Some s) = (s \<noteq> [] \<and> matchesVinPlus (toUpperCase U s))"
    by (simp add: montaje_isValidVin_def)
  show ?thesis
    using a b d chasis_onBastidorInput_sent [of rt v st] montaje_onVinInput_sent [of U v m]
    by blast
qed

lemma exampleVin_matches: "matchesVin17 exampleVin"
  by (simp add: exampleVin_def matchesVin17_def char_defs)

theorem vin_query_gate_witness:
  "matchesVin17 exampleVin \<and> chasis_isValidVin (\<lambda>c. [c]) (Some exampleVin)"
  using vin_query_gate [of "\<lambda>c. [c]" exampleVin] exampleVin_matches by blast

text \<open>Claim C6 as stated fails in Montaje: its predicate accepts a string of three
  characters.\<close>

theorem montaje_accepts_short_vin:
  "montaje_isValidVin (\<lambda>c. [c]) (Some (js ''ABC'')) \<and> \<not> matchesVin17 (js ''ABC'')"
  by (simp add: montaje_isValidVin_def matchesVinPlus_def matchesVin17_def toUpperCase_def
      upperCodePoint_def char_defs)

subsection \<open>The operator's actions while the identifier is not ok\<close>

lemma chasis_act_blocked:
  assumes "cha_vinState st \<noteq> Ok"
  shows "cha_vinState (chasis_act a st) = cha_vinState st \<and> cha_sent (chasis_act a st) = cha_sent st"
proof (cases a)
  case (ToggleTask i)
  then show ?thesis
    by (simp add: chasis_act_def chasis_toggleTask_def Let_def)
next
  case Finish
  then show ?thesis
    by (simp add: chasis_act_def chasis_finish_def)
next
  case CloseFinishModal
  then show ?thesis
    by (simp add: chasis_act_def chasis_closeFinishModal_def)
next
  case (ContinueAndClear gw ses)
  from assms have "\<not> chasis_canFinish st"
    by (simp add: chasis_canFinish_def)
  with ContinueAndClear show ?thesis
    by (simp add: chasis_act_def chasis_continueAndClear_def)
qed

lemma chasis_run_blocked:
  "cha_vinState st \<noteq> Ok \<Longrightarrow>
   cha_vinState (chasis_run as st) = cha_vinState st \<and> cha_sent (chasis_run as st) = cha_sent st"
  unfolding chasis_run_def
proof (induction as arbitrary: st)
  case Nil
  then show ?case by simp
next
  case (Cons a as)
  from chasis_act_blocked [OF Cons.prems, of a]
  have 1: "cha_vinState (chasis_act a st) = cha_vinState st"
    and 2: "cha_sent (chasis_act a st) = cha_sent st"
    by simp_all
  from 1 Cons.prems have "cha_vinState (chasis_act a st) \<noteq> Ok" by simp
  from Cons.IH [OF this] 1 2 show ?case by simp
qed

subsection \<open>A failed status query\<close>

text \<open>
  Claim C9. When the status query ends with a transport error the identifier state is
  \<open>invalid\<close>, in Chasis and in Montaje, whatever the state was, and the screen cannot
  finalize. In Chasis it stays so, and no request goes out, under every sequence of item checks
  and attempts to finalize that follows.
\<close>

theorem status_error_fails_closed:
  "cha_vinState (chasis_vinEstado_error st) = Invalid
   \<and> \<not> chasis_canFinish (chasis_vinEstado_error st)
   \<and> cha_vinState (chasis_run as (chasis_vinEstado_error st)) = Invalid
   \<and> \<not> chasis_canFinish (chasis_run as (chasis_vinEstado_error st))
   \<and> cha_sent (chasis_run as (chasis_vinEstado_error st)) = cha_sent st
   \<and> mon_vinStatus (montaje_disponible_error m) = MInvalid
   \<and> \<not> montaje_canFinish U (montaje_disponible_error m)"
proof -
  have i: "cha_vinState (chasis_vinEstado_error st) = Invalid"
    and s: "cha_sent (chasis_vinEstado_error st) = cha_sent st"
    by (simp_all add: chasis_vinEstado_error_def)
  from i have "cha_vinState (chasis_vinEstado_error st) \<noteq> Ok" by simp
  from chasis_run_blocked [OF this, of as] i s show ?thesis
    by (simp add: chasis_canFinish_def montaje_disponible_error_def montaje_canFinish_def)
qed

subsection \<open>Readiness needs every section full\<close>

lemma addToGroup_nonempty:
  "list_all (\<lambda>g. snd g \<noteq> []) g \<Longrightarrow> list_all (\<lambda>g. snd g \<noteq> []) (addToGroup k t g)"
  by (induction g) auto

lemma foldl_addToGroup_nonempty:
  "list_all (\<lambda>g. snd g \<noteq> []) g \<Longrightarrow>
   list_all (\<lambda>g. snd g \<noteq> []) (foldl (\<lambda>g r. addToGroup (kf r) (tf r) g) g rows)"
  by (induction rows arbitrary: g) (simp_all add: addToGroup_nonempty)

lemma groupRows_nonempty: "list_all (\<lambda>g. snd g \<noteq> []) (groupRows dflt rows)"
  unfolding groupRows_def by (rule foldl_addToGroup_nonempty) simp

lemma set_insertSorted: "set (insertSorted cmp x ys) = insert x (set ys)"
  by (induction ys) auto

lemma set_sortStable: "set (sortStable cmp xs) = set xs"
  unfolding sortStable_def by (induction xs) (simp_all add: set_insertSorted)

lemma loadSections_nonempty: "nonEmptySections (loadSections rt dflt rows)"
  using groupRows_nonempty [of dflt "filter activa rows"]
  by (auto simp: nonEmptySections_def loadSections_def list_all_iff set_sortStable)

lemma markSections_nonempty: "nonEmptySections (markSections rt ck secs) = nonEmptySections secs"
  by (induction secs) (simp_all add: nonEmptySections_def markSections_def markTasks_def)

lemma uncheckSections_nonempty: "nonEmptySections (uncheckSections secs) = nonEmptySections secs"
  by (induction secs) (simp_all add: nonEmptySections_def uncheckSections_def uncheckTasks_def)

lemma applyPending_nonempty:
  assumes ne: "nonEmptySections (pin_sections st)"
  shows "nonEmptySections (pin_sections (pintura_applyPendingIfReady rt st))"
proof (cases "pin_pendingSnapshot st")
  case None
  with ne show ?thesis by (simp add: pintura_applyPendingIfReady_def)
next
  case (Some snap)
  with ne show ?thesis
    by (cases "pin_sections st = []")
      (simp_all add: pintura_applyPendingIfReady_def Let_def markSections_nonempty)
qed

lemma update_nonempty:
  "nonEmptySections secs \<Longrightarrow> i < length secs \<Longrightarrow> length ts = length (tasks (secs ! i)) \<Longrightarrow>
   nonEmptySections (secs[i := (secs ! i)\<lparr>tasks := ts\<rparr>])"
  by (auto simp: nonEmptySections_def list_all_length nth_list_update)

lemma afterFinish_sections:
  "pin_sections (pintura_afterFinish ses st) = uncheckSections (pin_sections st)"
  by (simp add: pintura_afterFinish_def Let_def pintura_clearAll_def)

lemma continueAndClear_nonempty:
  "nonEmptySections (pin_sections st) \<Longrightarrow>
   nonEmptySections (pin_sections (pintura_continueAndClear gw rt ses st))"
  by (simp add: pintura_continueAndClear_def Let_def pin_send_def pin_error_def
      afterFinish_sections uncheckSections_nonempty split: option.splits reply.splits)

lemma pintura_reach_nonempty:
  "pintura_reach rt st \<Longrightarrow> nonEmptySections (pin_sections st)"
proof (induction rule: pintura_reach.induct)
  case (reach_init st)
  then show ?case by (simp add: nonEmptySections_def)
next
  case (reach_cargar st)
  then show ?case by (simp add: pintura_cargarTareasDesdeBD_def pin_send_def)
next
  case (reach_catalogo_next st rows)
  show ?case
    unfolding pintura_catalogo_next_def
    by (rule applyPending_nonempty) (simp add: loadSections_nonempty)
next
  case (reach_catalogo_error st)
  then show ?case by (simp add: pintura_catalogo_error_def pin_error_def)
next
  case (reach_autoResume st ses)
  then show ?case by (simp add: pintura_autoResumeFromUserPending_def pin_send_def)
next
  case (reach_pendientes_next st items)
  then show ?case by (simp add: pintura_pendientes_next_def pin_send_def split: option.splits)
next
  case (reach_snapshot_next st mine snap)
  show ?case
  proof (cases "snap_exists snap")
    case True
    have "nonEmptySections (pin_sections (pintura_applyPendingIfReady rt
        (st\<lparr>pin_pendingSnapshot := Some
            \<lparr>ps_color = nullish (snap_color snap) (item_color mine),
             ps_RAL = nullish (snap_RAL snap) (item_RAL mine),
             ps_checks = Some (case snap_checks snap of None \<Rightarrow> Map.empty | Some c \<Rightarrow> c),
             ps_id = nullish (snap_id snap) (Some (item_id mine))\<rparr>\<rparr>)))"
      by (rule applyPending_nonempty) (simp add: reach_snapshot_next.IH)
    with True show ?thesis by (simp add: pintura_snapshot_next_def)
  next
    case False
    with reach_snapshot_next.IH show ?thesis by (simp add: pintura_snapshot_next_def)
  qed
next
  case (reach_toggleTask st i j st')
  from reach_toggleTask.hyps(2) reach_toggleTask.IH show ?case
    by (auto simp: pintura_toggleTask_def Let_def update_nonempty split: if_splits)
next
  case (reach_onColorInputChange st v ty)
  then show ?case by (simp add: pintura_onColorInputChange_def split: color_input.splits)
next
  case (reach_clearSection st i st')
  from reach_clearSection.hyps(2) reach_clearSection.IH show ?case
    by (auto simp: pintura_clearSection_def Let_def update_nonempty uncheckTasks_def split: if_splits)
next
  case (reach_clearAll st)
  then show ?case by (simp add: pintura_clearAll_def uncheckSections_nonempty)
next
  case (reach_finish st)
  then show ?case by (simp add: pintura_finish_def)
next
  case (reach_closeModal st)
  then show ?case by (simp add: pintura_closeModal_def)
next
  case (reach_continueAndClear st gw ses)
  then show ?case by (simp add: continueAndClear_nonempty)
qed

lemma pintura_gap_blocks:
  assumes ne: "nonEmptySections (pin_sections st)"
    and s: "s \<in> set (pin_sections st)"
    and gap: "tasks s = [] \<or> (\<exists>t\<in>set (tasks s). \<not> done_flag t)"
  shows "\<not> pintura_allComplete st"
proof -
  from ne s have "tasks s \<noteq> []" by (auto simp: nonEmptySections_def list_all_iff)
  with gap obtain t where "t \<in> set (tasks s)" "\<not> done_flag t" by blast
  then have "\<not> pintura_sectionComplete s" by (auto simp: pintura_sectionComplete_def list_all_iff)
  with s show ?thesis by (auto simp: pintura_allComplete_def list_all_iff)
qed

lemma premontaje_gap_blocks:
  assumes s: "s \<in> set (pre_sections st)"
    and gap: "tasks s = [] \<or> (\<exists>t\<in>set (tasks s). \<not> done_flag t)"
  shows "\<not> premontaje_allComplete st"
proof -
  from gap have "\<not> premontaje_sectionComplete s"
    by (auto simp: premontaje_sectionComplete_def list_all_iff)
  with s show ?thesis
    by (auto simp: premontaje_allComplete_def premontaje_allSectionsDone_def list_all_iff)
qed

lemma montaje_gap_blocks:
  assumes s: "s \<in> set (mon_sections st)"
    and gap: "tasks s = [] \<or> (\<exists>t\<in>set (tasks s). \<not> done_flag t)"
  shows "\<not> montaje_canFinish U st"
proof -
  from gap have "\<not> montaje_sectionComplete s"
    by (auto simp: montaje_sectionComplete_def list_all_iff)
  with s show ?thesis
    by (auto simp: montaje_canFinish_def montaje_allSectionsDone_def list_all_iff)
qed

lemma chasis_gap_blocks:
  assumes gap: "cha_tasks st = [] \<or> (\<exists>t\<in>set (cha_tasks st). \<not> done_flag t)"
  shows "\<not> chasis_canFinish st"
proof -
  from gap show ?thesis
  proof
    assume "cha_tasks st = []"
    then show ?thesis
      by (simp add: chasis_canFinish_def chasis_allComplete_def chasis_total_def)
  next
    assume "\<exists>t\<in>set (cha_tasks st). \<not> done_flag t"
    then obtain t where "t \<in> set (cha_tasks st)" "\<not> done_flag t" by blast
    then have "length (filter done_flag (cha_tasks st)) < length (cha_tasks st)"
      by (rule length_filter_less)
    then show ?thesis
      by (simp add: chasis_canFinish_def chasis_allComplete_def chasis_total_def
          chasis_doneCount_def)
  qed
qed

text \<open>
  Claim C2. A section without items, or an item that is not checked, makes the readiness
  predicate false, whatever the identifier state and the other fields are: in Premontaje and
  Montaje for any list of sections, in Chasis for its flat list of items, and in Pintura in
  every state the screen reaches (its \<open>sectionComplete\<close> does not test the length; the load
  builds no section without items).
\<close>

theorem readiness_needs_full_sections:
  "(pintura_reach rt p \<and> s1 \<in> set (pin_sections p)
      \<and> (tasks s1 = [] \<or> (\<exists>t\<in>set (tasks s1). \<not> done_flag t)) \<longrightarrow> \<not> pintura_allComplete p)
   \<and> (s2 \<in> set (pre_sections q)
      \<and> (tasks s2 = [] \<or> (\<exists>t\<in>set (tasks s2). \<not> done_flag t)) \<longrightarrow> \<not> premontaje_allComplete q)
   \<and> (s3 \<in> set (mon_sections m)
      \<and> (tasks s3 = [] \<or> (\<exists>t\<in>set (tasks s3). \<not> done_flag t)) \<longrightarrow> \<not> montaje_canFinish U m)
   \<and> (cha_tasks c = [] \<or> (\<exists>t\<in>set (cha_tasks c). \<not> done_flag t) \<longrightarrow> \<not> chasis_canFinish c)"
  using pintura_gap_blocks [OF pintura_reach_nonempty, of rt p s1]
    premontaje_gap_blocks [of s2 q] montaje_gap_blocks [of s3 m U] chasis_gap_blocks [of c]
  by blast

lemma pintura_loaded_sections:
  "pin_sections pintura_loaded =
     [\<lparr>name = js ''Fase 1'',
       tasks = [\<lparr>label = js ''Montar estribera'', done_flag = False\<rparr>,
                \<lparr>label = js ''Ajustar faro'', done_flag = False\<rparr>]\<rparr>]"
  by (simp add: pintura_loaded_def pintura_onColorInputChange_def pintura_catalogo_next_def
      pintura_applyPendingIfReady_def pintura_initial_def
      loadSections_def exampleRows_def groupRows_def sectionKey_def trim_def
      sortStable_def char_defs)

lemma pintura_loaded_reach: "pintura_reach asciiRuntime pintura_loaded"
  unfolding pintura_loaded_def
  by (intro reach_onColorInputChange reach_catalogo_next reach_init)
    (simp add: pintura_initial_def)

lemma pintura_loaded_colors: "pintura_colorInputsComplete pintura_loaded"
  by (simp add: pintura_loaded_def pintura_onColorInputChange_def pintura_catalogo_next_def
      pintura_applyPendingIfReady_def pintura_initial_def pintura_colorInputsComplete_def
      trim_def char_defs)

theorem readiness_needs_full_sections_witness:
  "pintura_reach asciiRuntime pintura_loaded
   \<and> pintura_colorInputsComplete pintura_loaded
   \<and> \<not> pintura_allComplete pintura_loaded
   \<and> \<not> premontaje_allComplete
        (premontaje_initial\<lparr>pre_sections := [emptySection], pre_vehicleColorHex := js ''Rojo''\<rparr>)
   \<and> \<not> montaje_canFinish (\<lambda>c. [c]) (montaje_ready\<lparr>mon_sections := [emptySection]\<rparr>)
   \<and> \<not> chasis_canFinish (chasis_initial\<lparr>cha_vinState := Ok\<rparr>)"
proof -
  let ?s = "\<lparr>name = js ''Fase 1'',
       tasks = [\<lparr>label = js ''Montar estribera'', done_flag = False\<rparr>,
                \<lparr>label = js ''Ajustar faro'', done_flag = False\<rparr>]\<rparr>"
  let ?q = "premontaje_initial\<lparr>pre_sections := [emptySection], pre_vehicleColorHex := js ''Rojo''\<rparr>"
  let ?m = "montaje_ready\<lparr>mon_sections := [emptySection]\<rparr>"
  let ?c = "chasis_initial\<lparr>cha_vinState := Ok\<rparr>"
  have p: "?s \<in> set (pin_sections pintura_loaded) \<and> (\<exists>t\<in>set (tasks ?s). \<not> done_flag t)"
    by (simp add: pintura_loaded_sections)
  have q: "emptySection \<in> set (pre_sections ?q) \<and> tasks emptySection = []"
    by (simp add: emptySection_def)
  have m: "emptySection \<in> set (mon_sections ?m)"
    by simp
  have c: "cha_tasks ?c = []"
    by (simp add: chasis_initial_def)
  from readiness_needs_full_sections [of asciiRuntime pintura_loaded ?s emptySection ?q
      emptySection ?m "\<lambda>c. [c]" ?c]
    p q m c pintura_loaded_reach pintura_loaded_colors
  show ?thesis by blast
qed

subsection \<open>The frame of \<open>toggleTask\<close>\<close>

lemma toggled_sections_frame:
  assumes i: "i < length secs" and j: "j < length (tasks (secs ! i))"
  shows "length (secs[i := (secs ! i)\<lparr>tasks := (tasks (secs ! i))[j :=
            (tasks (secs ! i) ! j)\<lparr>done_flag := \<not> done_flag (tasks (secs ! i) ! j)\<rparr>]\<rparr>]) = length secs
       \<and> (\<forall>m<length secs.
            name (secs[i := (secs ! i)\<lparr>tasks := (tasks (secs ! i))[j :=
               (tasks (secs ! i) ! j)\<lparr>done_flag := \<not> done_flag (tasks (secs ! i) ! j)\<rparr>]\<rparr>] ! m) = name (secs ! m)
          \<and> length (tasks (secs[i := (secs ! i)\<lparr>tasks := (tasks (secs ! i))[j :=
               (tasks (secs ! i) ! j)\<lparr>done_flag := \<not> done_flag (tasks (secs ! i) ! j)\<rparr>]\<rparr>] ! m))
              = length (tasks (secs ! m))
          \<and> (\<forall>n<length (tasks (secs ! m)).
               label (tasks (secs[i := (secs ! i)\<lparr>tasks := (tasks (secs ! i))[j :=
                 (tasks (secs ! i) ! j)\<lparr>done_flag := \<not> done_flag (tasks (secs ! i) ! j)\<rparr>]\<rparr>] ! m) ! n)
                 = label (tasks (secs ! m) ! n)
             \<and> done_flag (tasks (secs[i := (secs ! i)\<lparr>tasks := (tasks (secs ! i))[j :=
                 (tasks (secs ! i) ! j)\<lparr>done_flag := \<not> done_flag (tasks (secs ! i) ! j)\<rparr>]\<rparr>] ! m) ! n)
                 = (if m = i \<and> n = j then \<not> done_flag (tasks (secs ! m) ! n)
                    else done_flag (tasks (secs ! m) ! n))))"
  using i j by (auto simp: nth_list_update)

lemma toggled_tasks_frame:
  assumes k: "k < length ts"
  shows "length (ts[k := (ts ! k)\<lparr>done_flag := \<not> done_flag (ts ! k)\<rparr>]) = length ts
       \<and> (\<forall>n<length ts.
            label (ts[k := (ts ! k)\<lparr>done_flag := \<not> done_flag (ts ! k)\<rparr>] ! n) = label (ts ! n)
          \<and> done_flag (ts[k := (ts ! k)\<lparr>done_flag := \<not> done_flag (ts ! k)\<rparr>] ! n)
              = (if n = k then \<not> done_flag (ts ! n) else done_flag (ts ! n)))"
  using k by (auto simp: nth_list_update)

text \<open>
  Claim C10. For indices in range, \<open>toggleTask\<close> returns a state that differs from the old one
  in the list of sections (of items, in Chasis) only; the new list has the same length, every
  section keeps its name and its number of items, every item keeps its label, and the
  \<open>done\<close> flag of an item is negated at the given position and unchanged elsewhere. So the
  identifier state, the pending id and every other field are as before. Stated of Pintura,
  Chasis and Premontaje.
\<close>

theorem toggleTask_frame:
  "(i < length (pin_sections p) \<and> j < length (tasks (pin_sections p ! i)) \<longrightarrow>
      (\<exists>p'. pintura_toggleTask i j p = Inr p'
         \<and> p'\<lparr>pin_sections := pin_sections p\<rparr> = p
         \<and> length (pin_sections p') = length (pin_sections p)
         \<and> (\<forall>m<length (pin_sections p).
              name (pin_sections p' ! m) = name (pin_sections p ! m)
            \<and> length (tasks (pin_sections p' ! m)) = length (tasks (pin_sections p ! m))
            \<and> (\<forall>n<length (tasks (pin_sections p ! m)).
                 label (tasks (pin_sections p' ! m) ! n) = label (tasks (pin_sections p ! m) ! n)
               \<and> done_flag (tasks (pin_sections p' ! m) ! n)
                   = (if m = i \<and> n = j then \<not> done_flag (tasks (pin_sections p ! m) ! n)
                      else done_flag (tasks (pin_sections p ! m) ! n))))))
   \<and> (k < length (cha_tasks c) \<longrightarrow>
      (\<exists>c'. chasis_toggleTask k c = Inr c'
         \<and> c'\<lparr>cha_tasks := cha_tasks c\<rparr> = c
         \<and> length (cha_tasks c') = length (cha_tasks c)
         \<and> (\<forall>n<length (cha_tasks c).
              label (cha_tasks c' ! n) = label (cha_tasks c ! n)
            \<and> done_flag (cha_tasks c' ! n)
                = (if n = k then \<not> done_flag (cha_tasks c ! n) else done_flag (cha_tasks c ! n)))))
   \<and> (i < length (pre_sections q) \<and> j < length (tasks (pre_sections q ! i)) \<longrightarrow>
      (\<exists>q'. premontaje_toggleTask i j q = Inr q'
         \<and> q'\<lparr>pre_sections := pre_sections q\<rparr> = q
         \<and> length (pre_sections q') = length (pre_sections q)
         \<and> (\<forall>m<length (pre_sections q).
              name (pre_sections q' ! m) = name (pre_sections q ! m)
            \<and> length (tasks (pre_sections q' ! m)) = length (tasks (pre_sections q ! m))
            \<and> (\<forall>n<length (tasks (pre_sections q ! m)).
                 label (tasks (pre_sections q' ! m) ! n) = label (tasks (pre_sections q ! m) ! n)
               \<and> done_flag (tasks (pre_sections q' ! m) ! n)
                   = (if m = i \<and> n = j then \<not> done_flag (tasks (pre_sections q ! m) ! n)
                      else done_flag (tasks (pre_sections q ! m) ! n))))))"
proof (intro conjI impI)
  assume h: "i < length (pin_sections p) \<and> j < length (tasks (pin_sections p ! i))"
  then show "\<exists>p'. pintura_toggleTask i j p = Inr p'
         \<and> p'\<lparr>pin_sections := pin_sections p\<rparr> = p
         \<and> length (pin_sections p') = length (pin_sections p)
         \<and> (\<forall>m<length (pin_sections p).
              name (pin_sections p' ! m) = name (pin_sections p ! m)
            \<and> length (tasks (pin_sections p' ! m)) = length (tasks (pin_sections p ! m))
            \<and> (\<forall>n<length (tasks (pin_sections p ! m)).
                 label (tasks (pin_sections p' ! m) ! n) = label (tasks (pin_sections p ! m) ! n)
               \<and> done_flag (tasks (pin_sections p' ! m) ! n)
                   = (if m = i \<and> n = j then \<not> done_flag (tasks (pin_sections p ! m) ! n)
                      else done_flag (tasks (pin_sections p ! m) ! n))))"
    using toggled_sections_frame [of i "pin_sections p" j]
    by (simp add: pintura_toggleTask_def Let_def)
next
  assume h: "k < length (cha_tasks c)"
  then show "\<exists>c'. chasis_toggleTask k c = Inr c'
         \<and> c'\<lparr>cha_tasks := cha_tasks c\<rparr> = c
         \<and> length (cha_tasks c') = length (cha_tasks c)
         \<and> (\<forall>n<length (cha_tasks c).
              label (cha_tasks c' ! n) = label (cha_tasks c ! n)
            \<and> done_flag (cha_tasks c' ! n)
                = (if n = k then \<not> done_flag (cha_tasks c ! n) else done_flag (cha_tasks c ! n)))"
    using toggled_tasks_frame [of k "cha_tasks c"]
    by (simp add: chasis_toggleTask_def Let_def)
next
  assume h: "i < length (pre_sections q) \<and> j < length (tasks (pre_sections q ! i))"
  then show "\<exists>q'. premontaje_toggleTask i j q = Inr q'
         \<and> q'\<lparr>pre_sections := pre_sections q\<rparr> = q
         \<and> length (pre_sections q') = length (pre_sections q)
         \<and> (\<forall>m<length (pre_sections q).
              name (pre_sections q' ! m) = name (pre_sections q ! m)
            \<and> length (tasks (pre_sections q' ! m)) = length (tasks (pre_sections q ! m))
            \<and> (\<forall>n<length (tasks (pre_sections q ! m)).
                 label (tasks (pre_sections q' ! m) ! n) = label (tasks (pre_sections q ! m) ! n)
               \<and> done_flag (tasks (pre_sections q' ! m) ! n)
                   = (if m = i \<and> n = j then \<not> done_flag (tasks (pre_sections q ! m) ! n)
                      else done_flag (tasks (pre_sections q ! m) ! n))))"
    using toggled_sections_frame [of i "pre_sections q" j]
    by (simp add: premontaje_toggleTask_def Let_def)
qed

theorem toggleTask_frame_witness:
  "(0 < length (pin_sections (pintura_ready (Some 7)))
      \<and> 1 < length (tasks (pin_sections (pintura_ready (Some 7)) ! 0))
      \<and> (\<exists>p'. pintura_toggleTask 0 1 (pintura_ready (Some 7)) = Inr p'
            \<and> p'\<lparr>pin_sections := pin_sections (pintura_ready (Some 7))\<rparr> = pintura_ready (Some 7)
            \<and> length (pin_sections p') = length (pin_sections (pintura_ready (Some 7)))))
   \<and> (1 < length (cha_tasks (chasis_ready (Some 7)))
      \<and> (\<exists>c'. chasis_toggleTask 1 (chasis_ready (Some 7)) = Inr c'
            \<and> c'\<lparr>cha_tasks := cha_tasks (chasis_ready (Some 7))\<rparr> = chasis_ready (Some 7)
            \<and> length (cha_tasks c') = length (cha_tasks (chasis_ready (Some 7)))))
   \<and> (0 < length (pre_sections (premontaje_initial\<lparr>pre_sections := exampleSections\<rparr>))
      \<and> 1 < length (tasks (pre_sections (premontaje_initial\<lparr>pre_sections := exampleSections\<rparr>) ! 0))
      \<and> (\<exists>q'. premontaje_toggleTask 0 1 (premontaje_initial\<lparr>pre_sections := exampleSections\<rparr>) = Inr q'
            \<and> q'\<lparr>pre_sections := pre_sections (premontaje_initial\<lparr>pre_sections := exampleSections\<rparr>)\<rparr>
                = premontaje_initial\<lparr>pre_sections := exampleSections\<rparr>
            \<and> length (pre_sections q')
                = length (pre_sections (premontaje_initial\<lparr>pre_sections := exampleSections\<rparr>))))"
proof -
  let ?p = "pintura_ready (Some 7)"
  let ?c = "chasis_ready (Some 7)"
  let ?q = "premontaje_initial\<lparr>pre_sections := exampleSections\<rparr>"
  have hp: "0 < length (pin_sections ?p) \<and> 1 < length (tasks (pin_sections ?p ! 0))"
    by (simp add: pintura_ready_def exampleSections_def exampleTasks_def)
  have hc: "1 < length (cha_tasks ?c)"
    by (simp add: chasis_ready_def exampleTasks_def)
  have hq: "0 < length (pre_sections ?q) \<and> 1 < length (tasks (pre_sections ?q ! 0))"
    by (simp add: exampleSections_def exampleTasks_def)
  from toggleTask_frame [of 0 ?p 1 1 ?c ?q] hp hc hq show ?thesis
    by blast
qed

subsection \<open>The order of the catalog and the pending snapshot\<close>

text \<open>
  Pintura: \<open>applyPendingIfReady\<close> may be tried any number of times, and on a screen that has
  neither a catalog nor a buffered snapshot the two orders of arrival end in the same state
  (checklist, colour fields and pending id alike).
\<close>

lemma pintura_applyPending_idem:
  "pintura_applyPendingIfReady rt (pintura_applyPendingIfReady rt st)
   = pintura_applyPendingIfReady rt st"
proof (cases "pin_pendingSnapshot st")
  case None
  then show ?thesis by (simp add: pintura_applyPendingIfReady_def)
next
  case (Some snap)
  then show ?thesis
    by (cases "pin_sections st = []") (simp_all add: pintura_applyPendingIfReady_def Let_def)
qed

lemma pintura_order_independent:
  assumes "pin_sections st = []" and "pin_pendingSnapshot st = None"
  shows "pintura_catalogo_next rt rows (pintura_snapshot_next rt mine snap st)
       = pintura_snapshot_next rt mine snap (pintura_catalogo_next rt rows st)"
proof (cases "snap_exists snap")
  case False
  then show ?thesis by (simp add: pintura_snapshot_next_def)
next
  case True
  with assms show ?thesis
    by (cases "loadSections rt (js ''Partes'') rows = []")
      (simp_all add: pintura_snapshot_next_def pintura_catalogo_next_def
        pintura_applyPendingIfReady_def Let_def)
qed

text \<open>
  Chasis: the checklist is the same in both orders. The pending id is not, when the snapshot
  comes with the reply of the status query: \<open>applyPendingChecks\<close> buffers
  \<open>id: this._pendingId\<close> before \<open>onBastidorInput\<close> has stored the id of the reply, and
  \<open>flushBufferedIfAny\<close> writes that older value back. \<open>queueOrApplyChecks\<close>, the entry from the
  Pendientes screen, stores the id first and keeps it.
\<close>

lemma chasis_checklist_order_independent:
  assumes "cha_tasks st = []" and "cha_buffered st = None"
  shows "cha_tasks (chasis_catalogo_next rt rows (chasis_vinEstado_next rt resp st))
       = cha_tasks (chasis_vinEstado_next rt resp (chasis_catalogo_next rt rows st))"
  using assms
  by (cases "status resp")
    (simp_all add: chasis_catalogo_next_def chasis_vinEstado_next_def
      chasis_applyPendingChecks_def chasis_flushBufferedIfAny_def Let_def markTasks_def)

lemma chasis_pending_id_by_order:
  assumes "cha_tasks st = []" and "cha_buffered st = None" and "status resp = StatusPending"
  shows "cha_pendingId (chasis_catalogo_next rt rows (chasis_vinEstado_next rt resp st))
           = cha_pendingId st"
    and "cha_pendingId (chasis_vinEstado_next rt resp (chasis_catalogo_next rt rows st))
           = estado_id resp"
  using assms
  by (simp_all add: chasis_catalogo_next_def chasis_vinEstado_next_def
      chasis_applyPendingChecks_def chasis_flushBufferedIfAny_def Let_def)

lemma chasis_queue_keeps_id:
  assumes "cha_tasks st = []" and "cha_buffered st = None"
  shows "cha_pendingId (chasis_catalogo_next rt rows (chasis_queueOrApplyChecks rt vin ck i st)) = i"
  using assms
  by (simp add: chasis_catalogo_next_def chasis_queueOrApplyChecks_def
      chasis_flushBufferedIfAny_def Let_def)

lemma exampleVin_clean: "chasis_clean (\<lambda>c. [c]) exampleVin = exampleVin"
  by (simp add: chasis_clean_def stripNonVin_def toUpperCase_def upperCodePoint_def
      exampleVin_def char_defs)

lemma exampleVin_nonempty: "exampleVin \<noteq> []"
  by (simp add: exampleVin_def js_def)

lemma chasis_typed_eq:
  "chasis_typed = chasis_initial\<lparr>cha_bastidor := exampleVin,
      cha_localStorage := [js ''CHASIS_VIN'' \<mapsto> exampleVin],
      cha_vinState := Checking, cha_sent := [GetVinEstadoChasis exampleVin]\<rparr>"
  using exampleVin_matches exampleVin_nonempty
  by (simp add: chasis_typed_def chasis_onBastidorInput_def Let_def asciiRuntime_def
      exampleVin_clean chasis_clean_valid [of "\<lambda>c. [c]" exampleVin, unfolded exampleVin_clean]
      cha_send_def chasis_initial_def)

lemma example_cols:
  "labelToCol asciiRuntime (js ''Montar estribera'') = js ''montar_estribera''"
  "labelToCol asciiRuntime (js ''Ajustar faro'') = js ''ajustar_faro''"
  by (simp_all add: labelToCol_def asciiRuntime_def stripUnderscores_def char_defs)

lemma example_marked:
  "markTasks asciiRuntime exampleChecks
     [\<lparr>label = js ''Montar estribera'', done_flag = False\<rparr>,
      \<lparr>label = js ''Ajustar faro'', done_flag = False\<rparr>]
   = [\<lparr>label = js ''Montar estribera'', done_flag = True\<rparr>,
      \<lparr>label = js ''Ajustar faro'', done_flag = False\<rparr>]"
proof -
  have f1: "checkFlag exampleChecks (js ''montar_estribera'')"
    by (simp add: checkFlag_def exampleChecks_def js_def)
  have f2: "\<not> checkFlag exampleChecks (js ''ajustar_faro'')"
    by (simp add: checkFlag_def exampleChecks_def js_def)
  show ?thesis
    by (simp add: markTasks_def example_cols f1 f2)
qed

lemma example_catalog_tasks:
  "map (\<lambda>r. \<lparr>label = cat_label r, done_flag = False\<rparr>) (filter activa exampleRows)
   = [\<lparr>label = js ''Montar estribera'', done_flag = False\<rparr>,
      \<lparr>label = js ''Ajustar faro'', done_flag = False\<rparr>]"
  by (simp add: exampleRows_def)

text \<open>
  Claim C1 at a concrete input of Chasis. A VIN is typed before the catalog has arrived and the
  status query answers \<open>pending\<close> with id 7. If the reply comes before the catalog, the pending
  id is \<open>null\<close> once the catalog has loaded and the checks are applied; if it comes after, the
  pending id is 7. The checklist is the same in both orders.
\<close>

theorem chasis_buffered_reply_loses_pending_id:
  "cha_tasks chasis_typed = []
   \<and> cha_pendingId chasis_reply_then_catalog = None
   \<and> cha_pendingId chasis_catalog_then_reply = Some 7
   \<and> cha_tasks chasis_reply_then_catalog = cha_tasks chasis_catalog_then_reply
   \<and> cha_tasks chasis_catalog_then_reply =
       [\<lparr>label = js ''Montar estribera'', done_flag = True\<rparr>,
        \<lparr>label = js ''Ajustar faro'', done_flag = False\<rparr>]"
  by (simp add: chasis_reply_then_catalog_def chasis_catalog_then_reply_def chasis_typed_eq
      chasis_catalogo_next_def chasis_vinEstado_next_def chasis_applyPendingChecks_def
      chasis_flushBufferedIfAny_def examplePending_def chasis_initial_def Let_def
      example_catalog_tasks example_marked)

subsection \<open>Finalizing: the requests that go out\<close>

lemma pintura_afterFinish_sent [simp]: "pin_sent (pintura_afterFinish ses st) = pin_sent st"
  by (simp add: pintura_afterFinish_def Let_def pintura_clearAll_def)

lemma pintura_afterFinish_console [simp]: "pin_console (pintura_afterFinish ses st) = pin_console st"
  by (simp add: pintura_afterFinish_def Let_def pintura_clearAll_def)

lemma chasis_afterFinish_sent [simp]: "cha_sent (chasis_afterFinish ses st) = cha_sent st"
  by (simp add: chasis_afterFinish_def Let_def chasis_clearAll_def chasis_clearBastidor_def
      chasis_closeFinishModal_def)

lemma chasis_afterFinish_console [simp]: "cha_console (chasis_afterFinish ses st) = cha_console st"
  by (simp add: chasis_afterFinish_def Let_def chasis_clearAll_def chasis_clearBastidor_def
      chasis_closeFinishModal_def)

lemma montaje_afterFinish_sent [simp]: "mon_sent (montaje_afterFinish ses st) = mon_sent st"
  by (simp add: montaje_afterFinish_def Let_def montaje_clearAll_def montaje_clearVehicle_def)

lemma pintura_resume_sent:
  assumes "pintura_allComplete p" and "userId ses \<noteq> 0"
    and "pin_pendingId p = Some pid" and "pid \<noteq> 0"
  shows "pin_sent (pintura_continueAndClear gw rt ses p) =
           pin_sent p @ [ActualizarTarea Pintura pid (pintura_patch rt p)]
             @ (if gw_actualizarTarea gw Pintura pid (pintura_patch rt p) = Failed then []
                else [FinalizarTarea Pintura (Some pid)])"
  using assms
  by (simp add: pintura_continueAndClear_def Let_def truthyId_def pin_send_def pin_error_def
      split: reply.splits)

lemma chasis_resume_sent:
  assumes "chasis_canFinish c" and "userId ses \<noteq> 0"
    and "cha_pendingId c = Some pid" and "pid \<noteq> 0"
  shows "cha_sent (chasis_continueAndClear gw ses c) =
           cha_sent c @ [IniciarTarea (chasis_dto ses c)]
             @ (case gw_iniciarTarea gw (chasis_dto ses c) of
                  Failed \<Rightarrow> []
                | Replied resp \<Rightarrow>
                    [FinalizarTarea Chasis
                       (Some (case resp_id_area resp of None \<Rightarrow> pid | Some u \<Rightarrow> u))])"
  using assms
  by (simp add: chasis_continueAndClear_def Let_def truthyId_def cha_send_def cha_error_def
      nullish_def split: reply.splits option.splits)

lemma montaje_finalize_sent:
  assumes "montaje_canFinish U m" and "userId ses \<noteq> 0"
  shows "mon_sent (montaje_continueAndClear gw U ses m) =
           mon_sent m @ [IniciarTarea (montaje_dto ses m)]
             @ (case gw_iniciarTarea gw (montaje_dto ses m) of
                  Failed \<Rightarrow> []
                | Replied resp \<Rightarrow>
                    if truthyId (resp_id_area resp)
                    then [FinalizarTarea Montaje (resp_id_area resp)] else [])"
  using assms
  by (simp add: montaje_continueAndClear_def Let_def mon_send_def mon_error_def
      split: reply.splits)

text \<open>
  What the payloads hold. A key written more than once keeps the last value, so the value
  under a key is that of the last item with the key. The patch of Pintura is
  \<open>{ color, RAL, ...buildChecksPatch() }\<close>: the checks come last and win over the colour.
\<close>

lemma fold_upd_find:
  "fold (\<lambda>t m. m(kf t \<mapsto> vf t)) ts m k =
     (case find (\<lambda>t. kf t = k) (rev ts) of Some t \<Rightarrow> Some (vf t) | None \<Rightarrow> m k)"
proof (induction ts rule: rev_induct)
  case Nil
  then show ?case by simp
next
  case (snoc a ts)
  define F where "F = fold (\<lambda>t m. m(kf t \<mapsto> vf t)) ts m"
  have ih: "F k = (case find (\<lambda>t. kf t = k) (rev ts) of Some t \<Rightarrow> Some (vf t) | None \<Rightarrow> m k)"
    unfolding F_def by (rule snoc.IH)
  have e: "fold (\<lambda>t m. m(kf t \<mapsto> vf t)) (ts @ [a]) m = F(kf a \<mapsto> vf a)"
    unfolding F_def by (simp only: fold_append fold.simps o_apply id_apply)
  show ?case
    unfolding e by (simp add: ih)
qed

lemma fold_guarded_find:
  "fold (\<lambda>t m. if kf t = bad then m else m(kf t \<mapsto> vf t)) ts m k =
     (if k = bad then m k
      else case find (\<lambda>t. kf t = k) (rev ts) of Some t \<Rightarrow> Some (vf t) | None \<Rightarrow> m k)"
proof (induction ts rule: rev_induct)
  case Nil
  then show ?case by simp
next
  case (snoc a ts)
  define F where "F = fold (\<lambda>t m. if kf t = bad then m else m(kf t \<mapsto> vf t)) ts m"
  have ih: "F k = (if k = bad then m k
      else case find (\<lambda>t. kf t = k) (rev ts) of Some t \<Rightarrow> Some (vf t) | None \<Rightarrow> m k)"
    unfolding F_def by (rule snoc.IH)
  have e: "fold (\<lambda>t m. if kf t = bad then m else m(kf t \<mapsto> vf t)) (ts @ [a]) m =
             (if kf a = bad then F else F(kf a \<mapsto> vf a))"
    unfolding F_def by (simp only: fold_append fold.simps o_apply id_apply)
  show ?case
    unfolding e using ih by (cases "k = bad"; cases "kf a = bad"; simp)
qed

lemma pintura_patch_holds:
  "pintura_patch rt p =
     (\<lambda>k. case find (\<lambda>t. labelToCol rt (label t) = k) (rev (allTasks (pin_sections p))) of
             Some t \<Rightarrow> Some (JNum (if done_flag t then 1 else 0))
           | None \<Rightarrow>
               if k = js ''color''
               then Some (if trim (pin_colorDescripcion p) = [] then JNull
                          else JStr (trim (pin_colorDescripcion p)))
               else if k = js ''RAL''
               then Some (if trim (pin_colorRAL p) = [] then JNull
                          else JStr (trim (pin_colorRAL p)))
               else None)"
proof
  fix k
  have c: "buildChecksPatch rt (pin_sections p) k =
      (case find (\<lambda>t. labelToCol rt (label t) = k) (rev (allTasks (pin_sections p))) of
         Some t \<Rightarrow> Some (JNum (if done_flag t then 1 else 0)) | None \<Rightarrow> None)"
    unfolding buildChecksPatch_def
    using fold_upd_find [of "\<lambda>t. labelToCol rt (label t)" "\<lambda>t. JNum (if done_flag t then 1 else 0)"
        "allTasks (pin_sections p)" Map.empty k]
    by simp
  have n: "js ''RAL'' \<noteq> js ''color''" by (simp add: js_def)
  show "pintura_patch rt p k =
     (case find (\<lambda>t. labelToCol rt (label t) = k) (rev (allTasks (pin_sections p))) of
             Some t \<Rightarrow> Some (JNum (if done_flag t then 1 else 0))
           | None \<Rightarrow>
               if k = js ''color''
               then Some (if trim (pin_colorDescripcion p) = [] then JNull
                          else JStr (trim (pin_colorDescripcion p)))
               else if k = js ''RAL''
               then Some (if trim (pin_colorRAL p) = [] then JNull
                          else JStr (trim (pin_colorRAL p)))
               else None)"
    using n
    by (simp add: pintura_patch_def map_add_def c nullable_def orNull_def split: option.splits)
qed

lemma buildChecksPayload_holds:
  "buildChecksPayload ts =
     (\<lambda>l. if l = js ''__proto__'' then None
          else map_option done_flag (find (\<lambda>t. label t = l) (rev ts)))"
proof
  fix l
  show "buildChecksPayload ts l =
     (if l = js ''__proto__'' then None
      else map_option done_flag (find (\<lambda>t. label t = l) (rev ts)))"
    unfolding buildChecksPayload_def
    using fold_guarded_find [of label "js ''__proto__''" done_flag ts Map.empty l]
    by (simp split: option.splits)
qed

lemma pintura_dto_holds:
  "pintura_dto ses p =
     \<lparr>usuario_id = userId ses, area = Pintura, dto_bastidor = None,
      dto_color = (if trim (pin_colorDescripcion p) = [] then None
                   else Some (trim (pin_colorDescripcion p))),
      dto_RAL = (if trim (pin_colorRAL p) = [] then None else Some (trim (pin_colorRAL p))),
      dto_checks = (\<lambda>l. map_option done_flag
                           (find (\<lambda>t. label t = l) (rev (allTasks (pin_sections p)))))\<rparr>"
proof -
  have "checksFromEntries ts = (\<lambda>l. map_option done_flag (find (\<lambda>t. label t = l) (rev ts)))" for ts
  proof
    fix l
    show "checksFromEntries ts l = map_option done_flag (find (\<lambda>t. label t = l) (rev ts))"
      unfolding checksFromEntries_def
      using fold_upd_find [of label done_flag ts Map.empty l]
      by (simp split: option.splits)
  qed
  then show ?thesis
    by (simp add: pintura_dto_def orNull_def)
qed

lemma chasis_dto_holds:
  "chasis_dto ses c =
     \<lparr>usuario_id = userId ses, area = Chasis,
      dto_bastidor = (if cha_bastidor c = [] then None else Some (cha_bastidor c)),
      dto_color = None, dto_RAL = None,
      dto_checks = (\<lambda>l. if l = js ''__proto__'' then None
                         else map_option done_flag (find (\<lambda>t. label t = l) (rev (cha_tasks c))))\<rparr>"
  by (simp add: chasis_dto_def orNull_def buildChecksPayload_holds)

lemma montaje_dto_holds:
  "montaje_dto ses m =
     \<lparr>usuario_id = userId ses, area = Montaje,
      dto_bastidor = (if mon_selectedBastidor m = [] then None else Some (mon_selectedBastidor m)),
      dto_color = (if mon_vehicleColorHex m = [] then None else Some (mon_vehicleColorHex m)),
      dto_RAL = None,
      dto_checks = (\<lambda>l. if l = js ''__proto__'' then None
                         else map_option done_flag
                                (find (\<lambda>t. label t = l) (rev (allTasks (mon_sections m)))))\<rparr>"
  by (simp add: montaje_dto_def orNull_def buildChecksPayload_holds)

text \<open>
  Claim C3, as amended. When finalize is confirmed while a pending id is held, Pintura sends
  \<open>actualizarTarea\<close> to that id and, once the update is accepted, \<open>finalizarTarea\<close> for the
  same id; it sends no \<open>iniciarTarea\<close>. The patch holds 1 or 0 for the check of every item
  under the column key of the item (of the last item, among items of one key), and the trimmed
  colour fields under \<open>color\<close> and \<open>RAL\<close> (\<open>null\<close> for an empty one), but where the column
  key of an item is \<open>color\<close>: there it holds the check of the item, not the colour. Chasis
  sends \<open>iniciarTarea\<close> and, once it is accepted, finalizes the id of the reply, or the pending
  id when the reply carries none; the start holds the user, the stage, the VIN on screen
  (\<open>null\<close> when empty) and the check of every item under its label (of the last item, among
  items of one label; nothing under \<open>__proto__\<close>). Montaje holds no pending id: it always
  sends \<open>iniciarTarea\<close>, with the selected VIN, the colour of the vehicle (\<open>null\<close> when empty)
  and the checks by label, and finalizes the id of the reply.
\<close>

theorem finalize_of_resumed_record:
  "(pintura_allComplete p \<and> userId ses \<noteq> 0 \<and> pin_pendingId p = Some pid \<and> pid \<noteq> 0 \<longrightarrow>
      pin_sent (pintura_continueAndClear gw rt ses p) =
        pin_sent p @ [ActualizarTarea Pintura pid (pintura_patch rt p)]
          @ (if gw_actualizarTarea gw Pintura pid (pintura_patch rt p) = Failed then []
             else [FinalizarTarea Pintura (Some pid)]))
   \<and> pintura_patch rt p =
       (\<lambda>k. case find (\<lambda>t. labelToCol rt (label t) = k) (rev (allTasks (pin_sections p))) of
               Some t \<Rightarrow> Some (JNum (if done_flag t then 1 else 0))
             | None \<Rightarrow>
                 if k = js ''color''
                 then Some (if trim (pin_colorDescripcion p) = [] then JNull
                            else JStr (trim (pin_colorDescripcion p)))
                 else if k = js ''RAL''
                 then Some (if trim (pin_colorRAL p) = [] then JNull
                            else JStr (trim (pin_colorRAL p)))
                 else None)
   \<and> (chasis_canFinish c \<and> userId ses \<noteq> 0 \<and> cha_pendingId c = Some pid \<and> pid \<noteq> 0 \<longrightarrow>
      cha_sent (chasis_continueAndClear gw ses c) =
        cha_sent c @ [IniciarTarea (chasis_dto ses c)]
          @ (case gw_iniciarTarea gw (chasis_dto ses c) of
               Failed \<Rightarrow> []
             | Replied resp \<Rightarrow>
                 [FinalizarTarea Chasis
                    (Some (case resp_id_area resp of None \<Rightarrow> pid | Some u \<Rightarrow> u))]))
   \<and> chasis_dto ses c =
       \<lparr>usuario_id = userId ses, area = Chasis,
        dto_bastidor = (if cha_bastidor c = [] then None else Some (cha_bastidor c)),
        dto_color = None, dto_RAL = None,
        dto_checks = (\<lambda>l. if l = js ''__proto__'' then None
                           else map_option done_flag (find (\<lambda>t. label t = l) (rev (cha_tasks c))))\<rparr>
   \<and> (montaje_canFinish U m \<and> userId ses \<noteq> 0 \<longrightarrow>
      mon_sent (montaje_continueAndClear gw U ses m) =
        mon_sent m @ [IniciarTarea (montaje_dto ses m)]
          @ (case gw_iniciarTarea gw (montaje_dto ses m) of
               Failed \<Rightarrow> []
             | Replied resp \<Rightarrow>
                 if truthyId (resp_id_area resp)
                 then [FinalizarTarea Montaje (resp_id_area resp)] else []))
   \<and> montaje_dto ses m =
       \<lparr>usuario_id = userId ses, area = Montaje,
        dto_bastidor = (if mon_selectedBastidor m = [] then None else Some (mon_selectedBastidor m)),
        dto_color = (if mon_vehicleColorHex m = [] then None else Some (mon_vehicleColorHex m)),
        dto_RAL = None,
        dto_checks = (\<lambda>l. if l = js ''__proto__'' then None
                           else map_option done_flag
                                  (find (\<lambda>t. label t = l) (rev (allTasks (mon_sections m)))))\<rparr>"
proof (intro conjI)
  show "pintura_allComplete p \<and> userId ses \<noteq> 0 \<and> pin_pendingId p = Some pid \<and> pid \<noteq> 0 \<longrightarrow>
      pin_sent (pintura_continueAndClear gw rt ses p) =
        pin_sent p @ [ActualizarTarea Pintura pid (pintura_patch rt p)]
          @ (if gw_actualizarTarea gw Pintura pid (pintura_patch rt p) = Failed then []
             else [FinalizarTarea Pintura (Some pid)])"
    using pintura_resume_sent [of p ses pid gw rt] by blast
  show "chasis_canFinish c \<and> userId ses \<noteq> 0 \<and> cha_pendingId c = Some pid \<and> pid \<noteq> 0 \<longrightarrow>
      cha_sent (chasis_continueAndClear gw ses c) =
        cha_sent c @ [IniciarTarea (chasis_dto ses c)]
          @ (case gw_iniciarTarea gw (chasis_dto ses c) of
               Failed \<Rightarrow> []
             | Replied resp \<Rightarrow>
                 [FinalizarTarea Chasis
                    (Some (case resp_id_area resp of None \<Rightarrow> pid | Some u \<Rightarrow> u))])"
    using chasis_resume_sent [of c ses pid gw] by blast
  show "montaje_canFinish U m \<and> userId ses \<noteq> 0 \<longrightarrow>
      mon_sent (montaje_continueAndClear gw U ses m) =
        mon_sent m @ [IniciarTarea (montaje_dto ses m)]
          @ (case gw_iniciarTarea gw (montaje_dto ses m) of
               Failed \<Rightarrow> []
             | Replied resp \<Rightarrow>
                 if truthyId (resp_id_area resp)
                 then [FinalizarTarea Montaje (resp_id_area resp)] else [])"
    using montaje_finalize_sent [of U m ses gw] by blast
qed (rule pintura_patch_holds chasis_dto_holds montaje_dto_holds)+

lemma exampleSession_user: "userId exampleSession \<noteq> 0"
  by (simp add: exampleSession_def)

lemma pintura_ready_complete: "pintura_allComplete (pintura_ready pid)"
  by (simp add: pintura_ready_def pintura_allComplete_def pintura_sectionComplete_def
      pintura_colorInputsComplete_def exampleSections_def exampleTasks_def pintura_initial_def
      trim_def char_defs)

lemma chasis_ready_canFinish: "chasis_canFinish (chasis_ready pid)"
  by (simp add: chasis_ready_def chasis_canFinish_def chasis_allComplete_def chasis_total_def
      chasis_doneCount_def exampleTasks_def chasis_initial_def)

lemma exampleVin_upper: "toUpperCase (\<lambda>c. [c]) exampleVin = exampleVin"
  using exampleVin_matches by (simp add: toUpperCase_vin_fixed matchesVin17_def)

lemma montaje_ready_canFinish: "montaje_canFinish (\<lambda>c. [c]) montaje_ready"
  using exampleVin_matches exampleVin_nonempty
  by (simp add: montaje_ready_def montaje_canFinish_def montaje_allSectionsDone_def
      montaje_sectionComplete_def montaje_isValidVin_def montaje_inDbList_def
      exampleVin_upper matchesVinPlus_def matchesVin17_def
      exampleSections_def exampleTasks_def montaje_initial_def js_def)

lemma pintura_ready_fields:
  "pin_pendingId (pintura_ready pid) = pid" "pin_sent (pintura_ready pid) = []"
  "pin_console (pintura_ready pid) = []" "pin_dailyCount (pintura_ready pid) = 0"
  by (simp_all add: pintura_ready_def pintura_initial_def)

lemma chasis_ready_fields:
  "cha_pendingId (chasis_ready pid) = pid" "cha_sent (chasis_ready pid) = []"
  "cha_console (chasis_ready pid) = []" "cha_dailyCount (chasis_ready pid) = 0"
  by (simp_all add: chasis_ready_def chasis_initial_def)

lemma example_patch:
  "(\<lambda>k. case find (\<lambda>t. labelToCol asciiRuntime (label t) = k) (rev (allTasks exampleSections)) of
               Some t \<Rightarrow> Some (JNum (if done_flag t then 1 else 0))
             | None \<Rightarrow>
                 if k = js ''color''
                 then Some (if trim (js ''Rojo'') = [] then JNull else JStr (trim (js ''Rojo'')))
                 else if k = js ''RAL''
                 then Some (if trim (js ''3020'') = [] then JNull else JStr (trim (js ''3020'')))
                 else None)
   = [js ''color'' \<mapsto> JStr (js ''Rojo''), js ''RAL'' \<mapsto> JStr (js ''3020''),
      js ''montar_estribera'' \<mapsto> JNum 1, js ''ajustar_faro'' \<mapsto> JNum 1]"
proof -
  have t: "trim (js ''Rojo'') = js ''Rojo''" "trim (js ''3020'') = js ''3020''"
    by (simp_all add: trim_def jsWhiteSpace_def js_def)
  have n: "js ''Rojo'' \<noteq> []" "js ''3020'' \<noteq> []"
    "js ''montar_estribera'' \<noteq> js ''ajustar_faro''"
    "js ''color'' \<noteq> js ''ajustar_faro''" "js ''color'' \<noteq> js ''montar_estribera''"
    "js ''RAL'' \<noteq> js ''ajustar_faro''" "js ''RAL'' \<noteq> js ''montar_estribera''"
    "js ''RAL'' \<noteq> js ''color''"
    by (simp_all add: js_def)
  show ?thesis
    using n by (auto simp: fun_eq_iff t exampleSections_def exampleTasks_def allTasks_def example_cols)
qed

lemma example_payload:
  "(\<lambda>l. if l = js ''__proto__'' then None
        else map_option done_flag (find (\<lambda>t. label t = l) (rev exampleTasks)))
   = [js ''Montar estribera'' \<mapsto> True, js ''Ajustar faro'' \<mapsto> True]"
proof -
  have n: "js ''__proto__'' \<noteq> js ''Montar estribera''" "js ''__proto__'' \<noteq> js ''Ajustar faro''"
    "js ''Montar estribera'' \<noteq> js ''Ajustar faro''"
    by (simp_all add: js_def)
  show ?thesis
    using n by (auto simp: fun_eq_iff exampleTasks_def)
qed

lemma pintura_ready_inputs:
  "pin_sections (pintura_ready pid) = exampleSections"
  "pin_colorDescripcion (pintura_ready pid) = js ''Rojo''"
  "pin_colorRAL (pintura_ready pid) = js ''3020''"
  by (simp_all add: pintura_ready_def pintura_initial_def)

lemma chasis_ready_inputs:
  "cha_tasks (chasis_ready pid) = exampleTasks" "cha_bastidor (chasis_ready pid) = exampleVin"
  by (simp_all add: chasis_ready_def chasis_initial_def)

lemma montaje_ready_inputs:
  "mon_sections montaje_ready = exampleSections" "mon_selectedBastidor montaje_ready = exampleVin"
  "mon_vehicleColorHex montaje_ready = js ''Rojo''" "mon_sent montaje_ready = []"
  by (simp_all add: montaje_ready_def montaje_initial_def)

lemma exampleSections_tasks: "allTasks exampleSections = exampleTasks"
  by (simp add: allTasks_def exampleSections_def)

theorem finalize_of_resumed_record_witness:
  "pin_sent (pintura_continueAndClear gatewayOk asciiRuntime exampleSession (pintura_ready (Some 7))) =
      [ActualizarTarea Pintura 7
         [js ''color'' \<mapsto> JStr (js ''Rojo''), js ''RAL'' \<mapsto> JStr (js ''3020''),
          js ''montar_estribera'' \<mapsto> JNum 1, js ''ajustar_faro'' \<mapsto> JNum 1],
       FinalizarTarea Pintura (Some 7)]
   \<and> cha_sent (chasis_continueAndClear gatewayNoId exampleSession (chasis_ready (Some 7))) =
      [IniciarTarea
         \<lparr>usuario_id = 3, area = Chasis, dto_bastidor = Some exampleVin,
          dto_color = None, dto_RAL = None,
          dto_checks = [js ''Montar estribera'' \<mapsto> True, js ''Ajustar faro'' \<mapsto> True]\<rparr>,
       FinalizarTarea Chasis (Some 7)]
   \<and> mon_sent (montaje_continueAndClear gatewayOk (\<lambda>c. [c]) exampleSession montaje_ready) =
      [IniciarTarea
         \<lparr>usuario_id = 3, area = Montaje, dto_bastidor = Some exampleVin,
          dto_color = Some (js ''Rojo''), dto_RAL = None,
          dto_checks = [js ''Montar estribera'' \<mapsto> True, js ''Ajustar faro'' \<mapsto> True]\<rparr>,
       FinalizarTarea Montaje (Some 9)]"
proof -
  note a = finalize_of_resumed_record [of "pintura_ready (Some 7)" exampleSession 7 gatewayOk
      asciiRuntime "chasis_ready (Some 7)" "\<lambda>c. [c]" montaje_ready]
  note b = finalize_of_resumed_record [of "pintura_ready (Some 7)" exampleSession 7 gatewayNoId
      asciiRuntime "chasis_ready (Some 7)" "\<lambda>c. [c]" montaje_ready]
  have r: "js ''Rojo'' \<noteq> []" by (simp add: js_def)
  have u: "userId exampleSession = 3" by (simp add: exampleSession_def)
  from a have pp: "pintura_patch asciiRuntime (pintura_ready (Some 7)) =
      [js ''color'' \<mapsto> JStr (js ''Rojo''), js ''RAL'' \<mapsto> JStr (js ''3020''),
       js ''montar_estribera'' \<mapsto> JNum 1, js ''ajustar_faro'' \<mapsto> JNum 1]"
    unfolding pintura_ready_inputs example_patch by (rule conjunct2 [THEN conjunct1])
  from b have cd: "chasis_dto exampleSession (chasis_ready (Some 7)) =
      \<lparr>usuario_id = 3, area = Chasis, dto_bastidor = Some exampleVin,
       dto_color = None, dto_RAL = None,
       dto_checks = [js ''Montar estribera'' \<mapsto> True, js ''Ajustar faro'' \<mapsto> True]\<rparr>"
    unfolding chasis_ready_inputs example_payload u
    using exampleVin_nonempty by simp
  from a have md: "montaje_dto exampleSession montaje_ready =
      \<lparr>usuario_id = 3, area = Montaje, dto_bastidor = Some exampleVin,
       dto_color = Some (js ''Rojo''), dto_RAL = None,
       dto_checks = [js ''Montar estribera'' \<mapsto> True, js ''Ajustar faro'' \<mapsto> True]\<rparr>"
    unfolding montaje_ready_inputs exampleSections_tasks example_payload u
    using exampleVin_nonempty r by simp
  from a exampleSession_user pintura_ready_complete
  have 1: "pin_sent (pintura_continueAndClear gatewayOk asciiRuntime exampleSession (pintura_ready (Some 7))) =
      [ActualizarTarea Pintura 7 (pintura_patch asciiRuntime (pintura_ready (Some 7))),
       FinalizarTarea Pintura (Some 7)]"
    by (simp add: gatewayOk_def pintura_ready_fields)
  from b exampleSession_user chasis_ready_canFinish
  have 2: "cha_sent (chasis_continueAndClear gatewayNoId exampleSession (chasis_ready (Some 7))) =
      [IniciarTarea (chasis_dto exampleSession (chasis_ready (Some 7))),
       FinalizarTarea Chasis (Some 7)]"
    by (simp add: gatewayNoId_def chasis_ready_fields)
  from a exampleSession_user montaje_ready_canFinish
  have 3: "mon_sent (montaje_continueAndClear gatewayOk (\<lambda>c. [c]) exampleSession montaje_ready) =
      [IniciarTarea (montaje_dto exampleSession montaje_ready),
       FinalizarTarea Montaje (Some 9)]"
    by (simp add: gatewayOk_def truthyId_def montaje_ready_inputs)
  from 1 2 3 show ?thesis unfolding pp cd md by blast
qed

text \<open>Claim C3 as stated fails in Chasis: with pending id 7 and a gateway that answers the
  start with id 9, the screen sends a start, not an update, and finalizes 9.\<close>

theorem chasis_resume_sends_start:
  "cha_pendingId (chasis_ready (Some 7)) = Some 7
   \<and> chasis_canFinish (chasis_ready (Some 7))
   \<and> cha_sent (chasis_continueAndClear gatewayOk exampleSession (chasis_ready (Some 7))) =
      [IniciarTarea (chasis_dto exampleSession (chasis_ready (Some 7))),
       FinalizarTarea Chasis (Some 9)]"
  using chasis_resume_sent [of "chasis_ready (Some 7)" exampleSession 7 gatewayOk]
    exampleSession_user chasis_ready_canFinish
  by (simp add: gatewayOk_def chasis_ready_fields)

text \<open>An item labelled \<open>Color\<close> has the column key \<open>color\<close>: the patch holds its check where
  the colour would be.\<close>

lemma pintura_patch_color_item:
  "pin_colorDescripcion pintura_color_item = js ''Rojo''
   \<and> pintura_patch asciiRuntime pintura_color_item (js ''color'') = Some (JNum 1)"
proof -
  have c: "labelToCol asciiRuntime (js ''Color'') = js ''color''"
    by (simp add: labelToCol_def asciiRuntime_def stripUnderscores_def lowerAscii_def char_defs)
  show ?thesis
    by (simp add: pintura_patch_holds pintura_color_item_def pintura_ready_def pintura_initial_def
        allTasks_def c)
qed

lemma pintura_create_flow:
  assumes "pintura_allComplete p" and "userId ses \<noteq> 0" and "\<not> truthyId (pin_pendingId p)"
    and "gw_iniciarTarea gw (pintura_dto ses p) = Replied resp"
  shows "pin_sent (pintura_continueAndClear gw rt ses p) =
           pin_sent p @ [IniciarTarea (pintura_dto ses p)]
             @ (if truthyId (resp_id_area resp) then [FinalizarTarea Pintura (resp_id_area resp)] else [])"
    and "\<not> truthyId (resp_id_area resp) \<Longrightarrow>
           pintura_continueAndClear gw rt ses p =
             p\<lparr>pin_sent := pin_sent p @ [IniciarTarea (pintura_dto ses p)],
               pin_console := pin_console p @ [js ''Respuesta iniciar sin id_area'']\<rparr>"
  using assms
  by (simp_all add: pintura_continueAndClear_def Let_def pin_send_def pin_error_def
      split: reply.splits)

lemma chasis_create_flow:
  assumes "chasis_canFinish c" and "userId ses \<noteq> 0" and "\<not> truthyId (cha_pendingId c)"
    and "gw_iniciarTarea gw (chasis_dto ses c) = Replied resp"
  shows "cha_sent (chasis_continueAndClear gw ses c) =
           cha_sent c @ [IniciarTarea (chasis_dto ses c)]
             @ (if truthyId (resp_id_area resp) then [FinalizarTarea Chasis (resp_id_area resp)] else [])"
    and "\<not> truthyId (resp_id_area resp) \<Longrightarrow>
           chasis_continueAndClear gw ses c =
             c\<lparr>cha_sent := cha_sent c @ [IniciarTarea (chasis_dto ses c)],
               cha_console := cha_console c @ [js ''Respuesta iniciar sin id_area:'']\<rparr>"
  using assms
  by (simp_all add: chasis_continueAndClear_def Let_def cha_send_def cha_error_def
      split: reply.splits)

text \<open>
  Claim C7. When finalize is confirmed with no pending id (\<open>null\<close>, or the falsy 0) and the
  start is accepted, Pintura and Chasis send \<open>iniciarTarea\<close> and then \<open>finalizarTarea\<close> with
  the \<open>id_area\<close> of the reply. When the reply carries no id (none, or the falsy 0), no
  \<open>finalizarTarea\<close> is sent, one error goes to the console and nothing else changes.
\<close>

theorem start_then_finalize_returned_id:
  "(pintura_allComplete p \<and> userId ses \<noteq> 0 \<and> \<not> truthyId (pin_pendingId p)
      \<and> gw_iniciarTarea gw (pintura_dto ses p) = Replied resp \<longrightarrow>
        pin_sent (pintura_continueAndClear gw rt ses p) =
          pin_sent p @ [IniciarTarea (pintura_dto ses p)]
            @ (if truthyId (resp_id_area resp) then [FinalizarTarea Pintura (resp_id_area resp)] else [])
        \<and> (\<not> truthyId (resp_id_area resp) \<longrightarrow>
             pintura_continueAndClear gw rt ses p =
               p\<lparr>pin_sent := pin_sent p @ [IniciarTarea (pintura_dto ses p)],
                 pin_console := pin_console p @ [js ''Respuesta iniciar sin id_area'']\<rparr>))
   \<and> (chasis_canFinish c \<and> userId ses \<noteq> 0 \<and> \<not> truthyId (cha_pendingId c)
      \<and> gw_iniciarTarea gw (chasis_dto ses c) = Replied resp' \<longrightarrow>
        cha_sent (chasis_continueAndClear gw ses c) =
          cha_sent c @ [IniciarTarea (chasis_dto ses c)]
            @ (if truthyId (resp_id_area resp') then [FinalizarTarea Chasis (resp_id_area resp')] else [])
        \<and> (\<not> truthyId (resp_id_area resp') \<longrightarrow>
             chasis_continueAndClear gw ses c =
               c\<lparr>cha_sent := cha_sent c @ [IniciarTarea (chasis_dto ses c)],
                 cha_console := cha_console c @ [js ''Respuesta iniciar sin id_area:'']\<rparr>))"
  using pintura_create_flow [of p ses gw resp rt] chasis_create_flow [of c ses gw resp']
  by blast

theorem start_then_finalize_returned_id_witness:
  "pin_sent (pintura_continueAndClear gatewayOk asciiRuntime exampleSession (pintura_ready None)) =
      [IniciarTarea (pintura_dto exampleSession (pintura_ready None)), FinalizarTarea Pintura (Some 9)]
   \<and> pintura_continueAndClear gatewayNoId asciiRuntime exampleSession (pintura_ready None) =
      (pintura_ready None)\<lparr>pin_sent := [IniciarTarea (pintura_dto exampleSession (pintura_ready None))],
                            pin_console := [js ''Respuesta iniciar sin id_area'']\<rparr>
   \<and> cha_sent (chasis_continueAndClear gatewayOk exampleSession (chasis_ready None)) =
      [IniciarTarea (chasis_dto exampleSession (chasis_ready None)), FinalizarTarea Chasis (Some 9)]
   \<and> chasis_continueAndClear gatewayNoId exampleSession (chasis_ready None) =
      (chasis_ready None)\<lparr>cha_sent := [IniciarTarea (chasis_dto exampleSession (chasis_ready None))],
                           cha_console := [js ''Respuesta iniciar sin id_area:'']\<rparr>"
proof -
  let ?r9 = "\<lparr>resp_id = None, resp_idArea = None, resp_id_area = Some 9, resp_status = None\<rparr>"
  let ?r0 = "\<lparr>resp_id = None, resp_idArea = None, resp_id_area = None, resp_status = None\<rparr>"
  have np: "\<not> truthyId (pin_pendingId (pintura_ready None))"
    and nc: "\<not> truthyId (cha_pendingId (chasis_ready None))"
    by (simp_all add: pintura_ready_fields chasis_ready_fields truthyId_def)
  have g: "gw_iniciarTarea gatewayOk d = Replied ?r9" "gw_iniciarTarea gatewayNoId d = Replied ?r0" for d
    by (simp_all add: gatewayOk_def gatewayNoId_def)
  have t: "truthyId (resp_id_area ?r9)" "\<not> truthyId (resp_id_area ?r0)"
    by (simp_all add: truthyId_def)
  note a = start_then_finalize_returned_id
    [of "pintura_ready None" exampleSession gatewayOk ?r9 asciiRuntime "chasis_ready None" ?r9]
  note b = start_then_finalize_returned_id
    [of "pintura_ready None" exampleSession gatewayNoId ?r0 asciiRuntime "chasis_ready None" ?r0]
  from a np nc g t pintura_ready_complete chasis_ready_canFinish exampleSession_user
  have 1: "pin_sent (pintura_continueAndClear gatewayOk asciiRuntime exampleSession (pintura_ready None)) =
      [IniciarTarea (pintura_dto exampleSession (pintura_ready None)), FinalizarTarea Pintura (Some 9)]"
    and 3: "cha_sent (chasis_continueAndClear gatewayOk exampleSession (chasis_ready None)) =
      [IniciarTarea (chasis_dto exampleSession (chasis_ready None)), FinalizarTarea Chasis (Some 9)]"
    by (simp_all add: pintura_ready_fields chasis_ready_fields)
  from b np nc g t pintura_ready_complete chasis_ready_canFinish exampleSession_user
  have 2: "pintura_continueAndClear gatewayNoId asciiRuntime exampleSession (pintura_ready None) =
      (pintura_ready None)\<lparr>pin_sent := [IniciarTarea (pintura_dto exampleSession (pintura_ready None))],
                            pin_console := [js ''Respuesta iniciar sin id_area'']\<rparr>"
    and 4: "chasis_continueAndClear gatewayNoId exampleSession (chasis_ready None) =
      (chasis_ready None)\<lparr>cha_sent := [IniciarTarea (chasis_dto exampleSession (chasis_ready None))],
                           cha_console := [js ''Respuesta iniciar sin id_area:'']\<rparr>"
    by (simp_all add: pintura_ready_fields chasis_ready_fields)
  from 1 2 3 4 show ?thesis by blast
qed

subsection \<open>Finalizing: what success and failure leave behind\<close>

















subsection \<open>An identifier that is already finalized\<close>

text \<open>
  After the status query of Chasis has answered \<open>finalized\<close>, the identifier state is
  \<open>finalized\<close> and \<open>canFinish\<close> is false after every sequence of item checks (in range or
  not) and of attempts to finalize, and none of these sends a request.
\<close>

lemma finalized_stays_blocked:
  "cha_vinState (chasis_run as (chasis_vinEstado_next rt (resp\<lparr>status := StatusFinalized\<rparr>) st)) = Finalized
   \<and> \<not> chasis_canFinish (chasis_run as (chasis_vinEstado_next rt (resp\<lparr>status := StatusFinalized\<rparr>) st))
   \<and> cha_sent (chasis_run as (chasis_vinEstado_next rt (resp\<lparr>status := StatusFinalized\<rparr>) st)) = cha_sent st"
proof -
  have f: "cha_vinState (chasis_vinEstado_next rt (resp\<lparr>status := StatusFinalized\<rparr>) st) = Finalized"
    and s: "cha_sent (chasis_vinEstado_next rt (resp\<lparr>status := StatusFinalized\<rparr>) st) = cha_sent st"
    by (simp_all add: chasis_vinEstado_next_def)
  from f have "cha_vinState (chasis_vinEstado_next rt (resp\<lparr>status := StatusFinalized\<rparr>) st) \<noteq> Ok"
    by simp
  from chasis_run_blocked [OF this, of as] f s show ?thesis
    by (simp add: chasis_canFinish_def)
qed

text \<open>
  The arrival of the catalog while a snapshot is buffered is not such an action:
  \<open>flushBufferedIfAny\<close> sets \<open>ok\<close> without looking at the state or at the VIN on screen.
\<close>

lemma chasis_flush_sets_ok:
  "cha_buffered st = Some b \<Longrightarrow> cha_vinState (chasis_catalogo_next rt rows st) = Ok"
  by (simp add: chasis_catalogo_next_def chasis_flushBufferedIfAny_def)

lemma exampleVin_trim: "trim exampleVin = exampleVin"
  by (simp add: trim_def exampleVin_def char_defs)

lemma chasis_consumed_eq:
  "chasis_consumeSnapshotIfAny asciiRuntime (\<lambda>raw. Replied exampleStored) chasis_from_pendientes =
     chasis_initial\<lparr>cha_pendingId := Some 5, cha_bastidor := exampleVin,
       cha_localStorage := [js ''CHASIS_VIN'' \<mapsto> exampleVin],
       cha_buffered := Some \<lparr>buf_vin = exampleVin,
          buf_checks = [js ''montar_estribera'' \<mapsto> True, js ''ajustar_faro'' \<mapsto> True],
          buf_id = Some 5\<rparr>,
       cha_vinState := Ok, cha_timers := [exampleVin]\<rparr>"
proof -
  have raw: "cha_localStorage chasis_from_pendientes (js ''SNAPSHOT_CHASIS'') = Some (js ''stored snapshot'')"
    "js ''stored snapshot'' \<noteq> []"
    by (simp_all add: chasis_from_pendientes_def js_def)
  have ls: "(cha_localStorage chasis_from_pendientes)(js ''SNAPSHOT_CHASIS'' := None) = Map.empty"
    by (simp add: chasis_from_pendientes_def chasis_initial_def)
  have rest: "chasis_from_pendientes\<lparr>cha_localStorage := Map.empty\<rparr> = chasis_initial"
    by (simp add: chasis_from_pendientes_def chasis_initial_def)
  show ?thesis
    using exampleVin_nonempty
    by (simp add: chasis_consumeSnapshotIfAny_def raw ls rest Let_def exampleStored_def orEmpty_def
        asciiRuntime_def exampleVin_upper exampleVin_trim chasis_queueOrApplyChecks_def
        chasis_initial_def)
qed

lemma chasis_resumed_finalized_eq:
  "chasis_resumed_finalized =
     chasis_initial\<lparr>cha_bastidor := exampleVin,
       cha_localStorage := [js ''CHASIS_VIN'' \<mapsto> exampleVin],
       cha_buffered := Some \<lparr>buf_vin = exampleVin,
          buf_checks = [js ''montar_estribera'' \<mapsto> True, js ''ajustar_faro'' \<mapsto> True],
          buf_id = Some 5\<rparr>,
       cha_vinState := Finalized, cha_sent := [GetVinEstadoChasis exampleVin]\<rparr>"
  unfolding chasis_resumed_finalized_def chasis_consumed_eq
  using exampleVin_matches exampleVin_nonempty
  by (simp add: chasis_timer_fire_def
      chasis_onBastidorInput_def Let_def asciiRuntime_def exampleVin_clean
      chasis_clean_valid [of "\<lambda>c. [c]" exampleVin, unfolded exampleVin_clean]
      cha_send_def chasis_vinEstado_next_def chasis_initial_def)

lemma example_marked_all:
  "markTasks asciiRuntime [js ''montar_estribera'' \<mapsto> True, js ''ajustar_faro'' \<mapsto> True]
     [\<lparr>label = js ''Montar estribera'', done_flag = False\<rparr>,
      \<lparr>label = js ''Ajustar faro'', done_flag = False\<rparr>]
   = [\<lparr>label = js ''Montar estribera'', done_flag = True\<rparr>,
      \<lparr>label = js ''Ajustar faro'', done_flag = True\<rparr>]"
proof -
  have f1: "checkFlag [js ''montar_estribera'' \<mapsto> True, js ''ajustar_faro'' \<mapsto> True] (js ''montar_estribera'')"
    by (simp add: checkFlag_def js_def)
  have f2: "checkFlag [js ''montar_estribera'' \<mapsto> True, js ''ajustar_faro'' \<mapsto> True] (js ''ajustar_faro'')"
    by (simp add: checkFlag_def js_def)
  show ?thesis
    by (simp add: markTasks_def example_cols f1 f2)
qed

text \<open>
  Claim C4 at a concrete input of Chasis. The screen is entered from Pendientes with a stored
  snapshot, the revalidation of its VIN is answered \<open>finalized\<close>, and then the catalog arrives:
  the state was \<open>finalized\<close> with \<open>canFinish\<close> false, and without any action of the operator or
  change of the VIN it is \<open>ok\<close> with \<open>canFinish\<close> true.
\<close>

theorem chasis_flush_reopens_finalized:
  "cha_vinState chasis_resumed_finalized = Finalized
   \<and> \<not> chasis_canFinish chasis_resumed_finalized
   \<and> cha_bastidor chasis_resumed_flushed = cha_bastidor chasis_resumed_finalized
   \<and> cha_vinState chasis_resumed_flushed = Ok
   \<and> chasis_canFinish chasis_resumed_flushed"
  by (simp add: chasis_resumed_flushed_def chasis_resumed_finalized_eq chasis_catalogo_next_def
      chasis_flushBufferedIfAny_def example_catalog_tasks example_marked_all
      chasis_canFinish_def chasis_allComplete_def chasis_total_def chasis_doneCount_def
      chasis_initial_def)

end
